theory Spec2Isabelle
  imports Complex_Main "HOL-Library.Char_ord" "HOL-Library.List_Lexorder"
begin

section \<open>Strings as Python uses them\<close>

text \<open>
  Python strings are modelled as \<^typ>\<open>string\<close> over the ASCII range. \<open>lower\<close> is
  \<^verbatim>\<open>str.lower\<close>, \<open>py_in needle hay\<close> is the substring test \<^verbatim>\<open>needle in hay\<close>,
  \<open>title\<close> is \<^verbatim>\<open>str.title\<close> and \<open>str_nat\<close> the decimal rendering of a
  non-negative integer in an f-string.
\<close>

definition is_upper :: "char \<Rightarrow> bool" where
  "is_upper c = (65 \<le> (of_char c :: nat) \<and> (of_char c :: nat) \<le> 90)"

definition is_lower :: "char \<Rightarrow> bool" where
  "is_lower c = (97 \<le> (of_char c :: nat) \<and> (of_char c :: nat) \<le> 122)"

definition is_digit :: "char \<Rightarrow> bool" where
  "is_digit c = (48 \<le> (of_char c :: nat) \<and> (of_char c :: nat) \<le> 57)"

definition lower_char :: "char \<Rightarrow> char" where
  "lower_char c = (if is_upper c then char_of ((of_char c :: nat) + 32) else c)"

definition upper_char :: "char \<Rightarrow> char" where
  "upper_char c = (if is_lower c then char_of ((of_char c :: nat) - 32) else c)"

definition lower :: "string \<Rightarrow> string" where
  "lower s = map lower_char s"

fun startswith :: "string \<Rightarrow> string \<Rightarrow> bool" where
  "startswith [] hay = True"
| "startswith (p # ps) [] = False"
| "startswith (p # ps) (c # cs) = (p = c \<and> startswith ps cs)"

fun py_in :: "string \<Rightarrow> string \<Rightarrow> bool" where
  "py_in needle [] = (needle = [])"
| "py_in needle (c # cs) = (startswith needle (c # cs) \<or> py_in needle cs)"

text \<open>\<^verbatim>\<open>str.title\<close>: a letter that follows a letter is lowered, any other letter is raised.\<close>

fun title_from :: "bool \<Rightarrow> string \<Rightarrow> string" where
  "title_from prev [] = []"
| "title_from prev (c # cs) =
     (if is_upper c \<or> is_lower c
      then (if prev then lower_char c else upper_char c) # title_from True cs
      else c # title_from False cs)"

definition title :: "string \<Rightarrow> string" where
  "title s = title_from False s"

definition digit_char :: "nat \<Rightarrow> char" where
  "digit_char d = char_of (48 + d)"

function str_nat :: "nat \<Rightarrow> string" where
  "str_nat n =
     (if n < 10 then [digit_char n] else str_nat (n div 10) @ [digit_char (n mod 10)])"
  by pat_completeness auto
termination
  by (relation "measure id") auto

declare str_nat.simps [simp del]

text \<open>\<^verbatim>\<open>sep.join(parts)\<close>.\<close>

fun join :: "string \<Rightarrow> string list \<Rightarrow> string" where
  "join sep [] = []"
| "join sep [p] = p"
| "join sep (p # q # ps) = p @ sep @ join sep (q # ps)"

section \<open>Messages\<close>

text \<open>
  \<^verbatim>\<open>MessageType\<close> of the College-Counseling-App chatbot; the StudBud chatbot declares
  the first nine members only. A \<^verbatim>\<open>Message\<close> carries content, type, metadata and
  sender; the dataclass default \<^verbatim>\<open>timestamp\<close> is a constant fixed when the class is
  defined and is left out.
\<close>

datatype MessageType =
    TEXT | QUICK_REPLY | SUGGESTION | ERROR | SYSTEM | RICH_CONTENT | CODE
  | INTERVIEW | RESOURCE | RESUME_FEEDBACK | JOB_MATCH

fun MessageType_value :: "MessageType \<Rightarrow> string" where
  "MessageType_value TEXT = ''text''"
| "MessageType_value QUICK_REPLY = ''quick_reply''"
| "MessageType_value SUGGESTION = ''suggestion''"
| "MessageType_value ERROR = ''error''"
| "MessageType_value SYSTEM = ''system''"
| "MessageType_value RICH_CONTENT = ''rich_content''"
| "MessageType_value CODE = ''code''"
| "MessageType_value INTERVIEW = ''interview''"
| "MessageType_value RESOURCE = ''resource''"
| "MessageType_value RESUME_FEEDBACK = ''resume_feedback''"
| "MessageType_value JOB_MATCH = ''job_match''"

record Message =
  content :: string
  mtype :: MessageType
  metadata :: "(string \<times> string) list option"
  sender :: string

text \<open>The College-Counseling-App message adds the embedding computed on insertion.\<close>

record 'e EMessage = Message +
  embedding :: "'e option"

definition mk_message :: "string \<Rightarrow> MessageType \<Rightarrow> Message" where
  "mk_message c t = \<lparr>content = c, mtype = t, metadata = None, sender = ''bot''\<rparr>"

definition mk_emessage :: "string \<Rightarrow> MessageType \<Rightarrow> 'e EMessage" where
  "mk_emessage c t =
     \<lparr>content = c, mtype = t, metadata = None, sender = ''bot'', embedding = None\<rparr>"

section \<open>Conversation memory (StudBud)\<close>

record ConversationContext =
  topics :: "string set"
  skills_mentioned :: "string set"
  companies_mentioned :: "string set"
  current_focus :: "string option"

record ConversationMemory =
  messages :: "Message list"
  max_messages :: int
  context_window :: nat
  current_topics :: "string list"
  user_preferences :: "(string \<times> string) list"
  conversation_context :: ConversationContext

definition ConversationMemory_init :: "int \<Rightarrow> ConversationMemory" where
  "ConversationMemory_init cap =
     \<lparr>messages = [], max_messages = cap, context_window = 8192, current_topics = [],
      user_preferences = [],
      conversation_context =
        \<lparr>topics = {}, skills_mentioned = {}, companies_mentioned = {}, current_focus = None\<rparr>\<rparr>"

definition topic_table :: "(string \<times> string list) list" where
  "topic_table =
     [(''technical'', [''algorithm'', ''coding'', ''programming'', ''system design'', ''development'']),
      (''interview'', [''interview'', ''questions'', ''preparation'', ''practice'']),
      (''career'', [''career'', ''growth'', ''path'', ''future'', ''goals'']),
      (''skills'', [''skills'', ''learning'', ''technology'', ''tools'']),
      (''companies'', [''company'', ''organization'', ''workplace'', ''employer'']),
      (''placement'', [''placement'', ''job'', ''position'', ''opportunity''])]"

definition skills_list :: "string list" where
  "skills_list =
     [''python'', ''java'', ''javascript'', ''react'', ''node'', ''sql'',
      ''machine learning'', ''ai'', ''cloud'', ''aws'', ''azure'',
      ''system design'', ''algorithms'', ''data structures'']"

definition companies_list :: "string list" where
  "companies_list =
     [''google'', ''microsoft'', ''amazon'', ''meta'', ''apple'',
      ''netflix'', ''uber'', ''twitter'', ''linkedin'']"

definition focus_indicators :: "(string \<times> string list) list" where
  "focus_indicators =
     [(''technical'', [''how to'', ''example'', ''code'', ''implement'']),
      (''conceptual'', [''explain'', ''what is'', ''understand'', ''concept'']),
      (''practical'', [''apply'', ''use'', ''practice'', ''real world'']),
      (''career'', [''career'', ''job'', ''future'', ''growth''])]"

text \<open>\<^verbatim>\<open>any(k in content_lower for k in keywords)\<close>.\<close>

definition any_in :: "string list \<Rightarrow> string \<Rightarrow> bool" where
  "any_in keywords content_lower = list_ex (\<lambda>k. py_in k content_lower) keywords"

text \<open>The pass over the topic table: every topic with a keyword in the text is added.\<close>

fun add_topics :: "(string \<times> string list) list \<Rightarrow> string \<Rightarrow> string set \<Rightarrow> string set" where
  "add_topics [] content_lower acc = acc"
| "add_topics ((topic, keywords) # rest) content_lower acc =
     add_topics rest content_lower
       (if any_in keywords content_lower then insert topic acc else acc)"

text \<open>The passes over the skill and company lists.\<close>

fun add_mentions :: "string list \<Rightarrow> string \<Rightarrow> string set \<Rightarrow> string set" where
  "add_mentions [] content_lower acc = acc"
| "add_mentions (w # rest) content_lower acc =
     add_mentions rest content_lower (if py_in w content_lower then insert w acc else acc)"

text \<open>The focus loop stops (\<^verbatim>\<open>break\<close>) at the first category with an indicator in the text.\<close>

fun find_focus :: "(string \<times> string list) list \<Rightarrow> string \<Rightarrow> string option" where
  "find_focus [] content_lower = None"
| "find_focus ((focus, indicators) # rest) content_lower =
     (if any_in indicators content_lower then Some focus else find_focus rest content_lower)"

definition update_context :: "ConversationMemory \<Rightarrow> string \<Rightarrow> ConversationMemory" where
  "update_context m c =
     (let content_lower = lower c;
          ctx = conversation_context m;
          ctx1 = ctx\<lparr>topics := add_topics topic_table content_lower (topics ctx)\<rparr>;
          ctx2 = ctx1\<lparr>skills_mentioned :=
                        add_mentions skills_list content_lower (skills_mentioned ctx1)\<rparr>;
          ctx3 = ctx2\<lparr>companies_mentioned :=
                        add_mentions companies_list content_lower (companies_mentioned ctx2)\<rparr>;
          ctx4 = (case find_focus focus_indicators content_lower of
                    None \<Rightarrow> ctx3
                  | Some focus \<Rightarrow> ctx3\<lparr>current_focus := Some focus\<rparr>)
      in m\<lparr>conversation_context := ctx4\<rparr>)"

text \<open>
  \<^verbatim>\<open>add_message\<close>: append, drop the oldest entry when the log is longer than
  \<^verbatim>\<open>max_messages\<close> (\<^verbatim>\<open>pop(0)\<close> on a list that was just appended to, hence not
  empty), and re-derive the context for a text message.
\<close>

definition add_message :: "ConversationMemory \<Rightarrow> Message \<Rightarrow> ConversationMemory" where
  "add_message m msg =
     (let appended = messages m @ [msg];
          kept = (if int (length appended) > max_messages m then tl appended else appended);
          m1 = m\<lparr>messages := kept\<rparr>
      in if mtype msg = TEXT then update_context m1 (content msg) else m1)"

section \<open>Conversation memory (College-Counseling-App)\<close>

text \<open>
  This memory keeps the log only. \<^verbatim>\<open>add_message\<close> first stores the sentence
  embedding on the message; the embedding model is the parameter \<open>encode\<close>.
\<close>

record 'e EConversationMemory =
  emessages :: "'e EMessage list"
  emax_messages :: int

definition EConversationMemory_init :: "int \<Rightarrow> 'e EConversationMemory" where
  "EConversationMemory_init cap = \<lparr>emessages = [], emax_messages = cap\<rparr>"

definition with_embedding :: "(string \<Rightarrow> 'e) \<Rightarrow> 'e EMessage \<Rightarrow> 'e EMessage" where
  "with_embedding encode msg = msg\<lparr>embedding := Some (encode (content msg))\<rparr>"

definition eadd_message ::
  "(string \<Rightarrow> 'e) \<Rightarrow> 'e EConversationMemory \<Rightarrow> 'e EMessage \<Rightarrow> 'e EConversationMemory" where
  "eadd_message encode m msg =
     (let appended = emessages m @ [with_embedding encode msg]
      in m\<lparr>emessages :=
             (if int (length appended) > emax_messages m then tl appended else appended)\<rparr>)"

section \<open>Exceptions\<close>

text \<open>
  The exceptions the modelled code can raise: \<^verbatim>\<open>IndexError\<close> from indexing a list, and
  whatever the external model client raises, kept with its \<^verbatim>\<open>str(e)\<close> text.
\<close>

datatype exn = IndexError | ServiceError string

fun str_exn :: "exn \<Rightarrow> string" where
  "str_exn IndexError = ''list index out of range''"
| "str_exn (ServiceError msg) = msg"

section \<open>Wall clock\<close>

text \<open>
  A reading of \<^verbatim>\<open>datetime.now()\<close>. \<open>strftime_compact\<close> is
  \<^verbatim>\<open>strftime('%Y%m%d%H%M%S')\<close> for a year of at most four digits, \<open>isoformat\<close> is
  \<^verbatim>\<open>isoformat()\<close>, which leaves the fraction out when the microsecond is zero.
\<close>

record datetime =
  year :: nat
  month :: nat
  day :: nat
  hour :: nat
  minute :: nat
  second :: nat
  microsecond :: nat

definition zfill :: "nat \<Rightarrow> string \<Rightarrow> string" where
  "zfill w s = replicate (w - length s) (CHR ''0'') @ s"

definition strftime_compact :: "datetime \<Rightarrow> string" where
  "strftime_compact t =
     zfill 4 (str_nat (year t)) @ zfill 2 (str_nat (month t)) @ zfill 2 (str_nat (day t))
     @ zfill 2 (str_nat (hour t)) @ zfill 2 (str_nat (minute t)) @ zfill 2 (str_nat (second t))"

definition isoformat :: "datetime \<Rightarrow> string" where
  "isoformat t =
     zfill 4 (str_nat (year t)) @ ''-'' @ zfill 2 (str_nat (month t)) @ ''-''
     @ zfill 2 (str_nat (day t)) @ ''T'' @ zfill 2 (str_nat (hour t)) @ '':''
     @ zfill 2 (str_nat (minute t)) @ '':'' @ zfill 2 (str_nat (second t))
     @ (if microsecond t = 0 then [] else ''.'' @ zfill 6 (str_nat (microsecond t)))"

section \<open>Application manager (College-Counseling-App)\<close>

text \<open>
  The applications table is the list of its rows in frame order; a row is the dictionary of
  its cells, a column the row lacks reading as missing. Row labels are unique (a range on
  load, renumbered by every \<^verbatim>\<open>concat(..., ignore_index=True)\<close>, kept by filtering), so
  a row is addressed by its position. Writing the table back to the CSV file is not
  modelled.
\<close>

type_synonym row = "(string \<times> string) list"

fun dict_set :: "'k \<Rightarrow> 'v \<Rightarrow> ('k \<times> 'v) list \<Rightarrow> ('k \<times> 'v) list" where
  "dict_set k v [] = [(k, v)]"
| "dict_set k v ((k', v') # d) = (if k = k' then (k, v) # d else (k', v') # dict_set k v d)"

text \<open>
  \<^verbatim>\<open>create_application\<close> reads the clock twice: for the identifier and for the
  applied date.
\<close>

definition create_application :: "datetime \<Rightarrow> datetime \<Rightarrow> row list \<Rightarrow> row \<Rightarrow> string \<times> row list" where
  "create_application now_id now_date applications_df application_data =
     (let application_id = ''APP_'' @ strftime_compact now_id;
          data1 = dict_set ''application_id'' application_id application_data;
          data2 = dict_set ''applied_date'' (isoformat now_date) data1
      in (application_id, applications_df @ [data2]))"

text \<open>The positions of the rows whose \<^verbatim>\<open>application_id\<close> cell equals the identifier.\<close>

definition matching_index :: "row list \<Rightarrow> string \<Rightarrow> nat list" where
  "matching_index applications_df application_id =
     filter (\<lambda>i. map_of (applications_df ! i) ''application_id'' = Some application_id)
       [0..<length applications_df]"

definition update_application :: "row list \<Rightarrow> string \<Rightarrow> row \<Rightarrow> bool \<times> row list" where
  "update_application applications_df application_id updates =
     (case matching_index applications_df application_id of
        [] \<Rightarrow> (False, applications_df)
      | i # _ \<Rightarrow>
          (True, applications_df
                   [i := foldl (\<lambda>r (key, v). dict_set key v r) (applications_df ! i) updates]))"

definition delete_application :: "row list \<Rightarrow> string \<Rightarrow> bool \<times> row list" where
  "delete_application applications_df application_id =
     (let kept = filter (\<lambda>r. map_of r ''application_id'' \<noteq> Some application_id)
                   applications_df
      in (length kept < length applications_df, kept))"

section \<open>Authentication (StudBud)\<close>

record user =
  user_id :: string
  email :: string
  password :: string
  role :: string
  name :: string
  department :: string
  user_year :: string
  created_at :: string
  last_login :: string

record user_info =
  info_user_id :: string
  info_name :: string
  info_role :: string

text \<open>
  \<^verbatim>\<open>authenticate_user\<close>: the user is looked up by lowered email, the first match is
  taken, the password is compared as it is, and \<^verbatim>\<open>last_login\<close> is set on the rows
  whose email \<^emph>\<open>equals\<close> the supplied one. The result is the users table with the
  returned triple.
\<close>

definition authenticate_user ::
  "datetime \<Rightarrow> user list \<Rightarrow> string \<Rightarrow> string \<Rightarrow> user list \<times> bool \<times> string \<times> user_info option" where
  "authenticate_user now users_df email_in password_in =
     (case filter (\<lambda>u. lower (email u) = lower email_in) users_df of
        [] \<Rightarrow> (users_df, False, ''Invalid email or password'', None)
      | user_data # _ \<Rightarrow>
          if password_in \<noteq> password user_data
          then (users_df, False, ''Invalid email or password'', None)
          else (map (\<lambda>u. if email u = email_in then u\<lparr>last_login := isoformat now\<rparr> else u)
                  users_df,
                True, ''Login successful'',
                Some \<lparr>info_user_id = user_id user_data, info_name = name user_data,
                      info_role = role user_data\<rparr>))"

section \<open>Job manager (StudBud)\<close>

record job =
  job_id :: string
  job_title :: string
  company :: string
  location :: string
  salary_range :: string
  job_type :: string
  posted_date :: string
  description :: string
  skills :: string
  status :: string

text \<open>\<^verbatim>\<open>re.findall(r'\d+', x)\<close>: the maximal runs of digits of \<open>x\<close>, left to right.\<close>

fun digit_runs :: "string \<Rightarrow> string \<Rightarrow> string list" where
  "digit_runs run [] = (if run = [] then [] else [run])"
| "digit_runs run (c # cs) =
     (if is_digit c then digit_runs (run @ [c]) cs
      else if run = [] then digit_runs [] cs
      else run # digit_runs [] cs)"

definition findall_digits :: "string \<Rightarrow> string list" where
  "findall_digits x = digit_runs [] x"

text \<open>\<^verbatim>\<open>float\<close> of a run of digits, as the exact number.\<close>

definition float_of_digits :: "string \<Rightarrow> rat" where
  "float_of_digits ds = of_nat (foldl (\<lambda>n c. 10 * n + ((of_char c :: nat) - 48)) 0 ds)"

text \<open>The two lambdas: the first and the last digit run; indexing an empty list raises.\<close>

definition salary_min_of :: "string \<Rightarrow> exn + rat" where
  "salary_min_of x =
     (case findall_digits x of [] \<Rightarrow> Inl IndexError | d # _ \<Rightarrow> Inr (float_of_digits d))"

definition salary_max_of :: "string \<Rightarrow> exn + rat" where
  "salary_max_of x =
     (case findall_digits x of [] \<Rightarrow> Inl IndexError | d # ds \<Rightarrow> Inr (float_of_digits (last (d # ds))))"

text \<open>\<^verbatim>\<open>Series.apply\<close>: the function is called on the cells in row order; the first
  exception ends the call.\<close>

fun series_apply :: "('a \<Rightarrow> exn + 'b) \<Rightarrow> 'a list \<Rightarrow> exn + 'b list" where
  "series_apply f [] = Inr []"
| "series_apply f (x # xs) =
     (case f x of
        Inl e \<Rightarrow> Inl e
      | Inr y \<Rightarrow> (case series_apply f xs of Inl e \<Rightarrow> Inl e | Inr ys \<Rightarrow> Inr (y # ys)))"

record job_row =
  the_job :: job
  salary_min :: rat
  salary_max :: rat

text \<open>
  \<^verbatim>\<open>get_jobs\<close> computes the \<^verbatim>\<open>salary_min\<close> column, then the \<^verbatim>\<open>salary_max\<close>
  column, and only then looks at the filters. The filtering and sorting of the frame
  (search by pattern, membership, salary bounds, \<^verbatim>\<open>sort_values\<close>) is the parameter
  \<open>refine\<close>, applied when filters are given; no exception is caught anywhere.
\<close>

definition get_jobs ::
  "('f \<Rightarrow> job_row list \<Rightarrow> job_row list) \<Rightarrow> job list \<Rightarrow> 'f option \<Rightarrow> exn + job_row list" where
  "get_jobs refine jobs_df filters =
     (case series_apply salary_min_of (map salary_range jobs_df) of
        Inl e \<Rightarrow> Inl e
      | Inr mins \<Rightarrow>
          (case series_apply salary_max_of (map salary_range jobs_df) of
             Inl e \<Rightarrow> Inl e
           | Inr maxs \<Rightarrow>
               (let df = map (\<lambda>(j, lo, hi). \<lparr>the_job = j, salary_min = lo, salary_max = hi\<rparr>)
                           (zip jobs_df (zip mins maxs))
                in case filters of None \<Rightarrow> Inr df | Some f \<Rightarrow> Inr (refine f df))))"

record job_statistics =
  active_jobs :: nat
  companies :: nat
  recent_jobs :: nat
  salary_avg :: "rat option"

text \<open>
  \<^verbatim>\<open>get_job_statistics\<close>: no file gives the empty dictionary (\<open>None\<close> here); else the
  posted dates are parsed (\<open>to_datetime\<close>, seconds since the epoch, may raise), the two
  salary columns are computed as in \<^verbatim>\<open>get_jobs\<close>, and the statistics are built.
  \<open>week_ago\<close> is \<^verbatim>\<open>datetime.now() - timedelta(days=7)\<close>; the mean of no rows is
  not a number (\<open>None\<close>).
\<close>

definition get_job_statistics ::
  "(string \<Rightarrow> exn + int) \<Rightarrow> int \<Rightarrow> job list option \<Rightarrow> exn + job_statistics option" where
  "get_job_statistics to_datetime week_ago jobs_file =
     (case jobs_file of
        None \<Rightarrow> Inr None
      | Some jobs_df \<Rightarrow>
          (case series_apply to_datetime (map posted_date jobs_df) of
             Inl e \<Rightarrow> Inl e
           | Inr dates \<Rightarrow>
               (case series_apply salary_min_of (map salary_range jobs_df) of
                  Inl e \<Rightarrow> Inl e
                | Inr mins \<Rightarrow>
                    (case series_apply salary_max_of (map salary_range jobs_df) of
                       Inl e \<Rightarrow> Inl e
                     | Inr maxs \<Rightarrow>
                         Inr (Some
                           \<lparr>active_jobs = length jobs_df,
                            companies = card (set (map company jobs_df)),
                            recent_jobs = length (filter (\<lambda>d. week_ago \<le> d) dates),
                            salary_avg =
                              (if jobs_df = [] then None
                               else Some (sum_list (map (\<lambda>(lo, hi). (lo + hi) / 2) (zip mins maxs))
                                          / of_nat (length jobs_df)))\<rparr>)))))"

text \<open>
  The users table \<^verbatim>\<open>_load_users\<close> creates when there is no file; \<open>created\<close> is the
  clock reading at that moment in ISO format.
\<close>

definition default_users :: "string \<Rightarrow> user list" where
  "default_users created =
     [\<lparr>user_id = ''USR_001'', email = ''admin@atlas.edu'', password = ''admin123'',
       role = ''admin'', name = ''Admin User'', department = ''Administration'',
       user_year = ''NA'', created_at = created, last_login = created\<rparr>,
      \<lparr>user_id = ''USR_002'', email = ''student@atlas.edu'', password = ''student123'',
       role = ''student'', name = ''Student User'', department = ''Computer Science'',
       user_year = ''Third Year'', created_at = created, last_login = created\<rparr>]"

section \<open>External services\<close>

text \<open>
  What the chatbots call and do not implement is taken as given:
  \<^item> \<open>chat\<close>: \<^verbatim>\<open>client.chat(model, messages, stream=True, options)\<close> with the fixed
    decoding options. It raises, or gives a stream: the \<^verbatim>\<open>content\<close> of each chunk
    (\<open>None\<close> when the chunk has none) and how the stream ends, normally or by raising.
  \<^item> \<open>generate\<close>: \<^verbatim>\<open>client.generate(model, prompt, max_tokens)\<close>. It raises, or gives
    the \<^verbatim>\<open>text\<close> entry of the response, if it has one.
  \<^item> \<open>encode\<close>, \<open>rank\<close>: the sentence embedding and the indices of the \<open>k\<close> stored
    embeddings most similar to a query embedding.
  \<^item> \<open>clock\<close>: the ISO time read at the \<open>k\<close>-th metadata record of a response.
  \<^item> \<open>iter\<close>: the order in which Python iterates over a set of strings.
  \<^item> \<open>rnd\<close>: the \<open>k\<close>-th draw of \<^verbatim>\<open>random.random()\<close>; \<open>sample n k\<close>: the positions
    \<^verbatim>\<open>random.sample\<close> draws, \<open>k\<close> out of \<open>n\<close>.
  \<^item> \<open>repr_list\<close>: how an f-string renders a list of strings.
\<close>

record chat_request =
  req_model :: string
  req_system :: string
  req_user :: string

record generate_request =
  gen_model :: string
  gen_prompt :: string
  gen_max_tokens :: nat

type_synonym chat_stream = "string option list \<times> exn option"

record 'e env =
  chat :: "chat_request \<Rightarrow> exn + chat_stream"
  generate :: "generate_request \<Rightarrow> exn + string option"
  encode :: "string \<Rightarrow> 'e"
  rank :: "'e \<Rightarrow> 'e list \<Rightarrow> nat \<Rightarrow> nat list"
  clock :: "nat \<Rightarrow> string"
  iter :: "string set \<Rightarrow> string list"
  rnd :: "nat \<Rightarrow> rat"
  sample :: "nat \<Rightarrow> nat \<Rightarrow> nat list"
  repr_list :: "string list \<Rightarrow> string"

text \<open>List indexing as Python does it: a negative index counts from the end.\<close>

definition py_index :: "'a list \<Rightarrow> int \<Rightarrow> exn + 'a" where
  "py_index xs i =
     (let n = int (length xs); k = (if i < 0 then n + i else i)
      in if 0 \<le> k \<and> k < n then Inr (xs ! nat k) else Inl IndexError)"

definition get_message_metadata :: "string \<Rightarrow> MessageType \<Rightarrow> (string \<times> string) list" where
  "get_message_metadata now t = [(''timestamp'', now), (''type'', MessageType_value t)]"

text \<open>
  The loop over the stream, shared by both chatbots: every chunk with a non-empty content
  is added to the message so far and yielded as a text message. The result is the
  messages yielded, the whole text and the number of metadata records made.
\<close>

fun stream_chunks ::
  "(nat \<Rightarrow> string) \<Rightarrow> nat \<Rightarrow> string \<Rightarrow> string option list \<Rightarrow> Message list \<times> string \<times> nat" where
  "stream_chunks clk k current_message [] = ([], current_message, k)"
| "stream_chunks clk k current_message (None # rest) = stream_chunks clk k current_message rest"
| "stream_chunks clk k current_message (Some c # rest) =
     (if c = [] then stream_chunks clk k current_message rest
      else (case stream_chunks clk (Suc k) (current_message @ c) rest of
              (yielded, final_message, k') \<Rightarrow>
                (\<lparr>content = c, mtype = TEXT,
                  metadata = Some (get_message_metadata (clk k) TEXT), sender = ''bot''\<rparr>
                 # yielded, final_message, k')))"

section \<open>Chatbot (College-Counseling-App)\<close>

datatype pref = PNone | PText string | PList "string list"

fun truthy :: "pref \<Rightarrow> bool" where
  "truthy PNone = False"
| "truthy (PText s) = (s \<noteq> [])"
| "truthy (PList xs) = (xs \<noteq> [])"

text \<open>Iterating a preference value: the items of a list, the characters of a string.\<close>

fun pref_items :: "pref \<Rightarrow> string list" where
  "pref_items PNone = []"
| "pref_items (PText s) = map (\<lambda>c. [c]) s"
| "pref_items (PList xs) = xs"

record 'e cc_PlacementChatbot =
  cc_text_model :: string
  cc_vision_model :: string
  cc_memory :: "'e EConversationMemory"
  cc_user_preferences :: "(string \<times> pref) list"
  is_mock_interview_active :: bool
  mock_interview_questions :: "string list"
  current_question_index :: nat
  user_resume_text :: string
  resume_uploaded :: bool
  cc_system_prompt :: string

definition cc_PlacementChatbot_init :: "string \<Rightarrow> 'e cc_PlacementChatbot" where
  "cc_PlacementChatbot_init prompt =
     \<lparr>cc_text_model = ''gemma2:27b'', cc_vision_model = ''llama3.2-vision:latest'',
      cc_memory = EConversationMemory_init 50, cc_user_preferences = [],
      is_mock_interview_active = False, mock_interview_questions = [],
      current_question_index = 0, user_resume_text = [], resume_uploaded = False,
      cc_system_prompt = prompt\<rparr>"

definition to_emessage :: "Message \<Rightarrow> 'e EMessage" where
  "to_emessage m =
     \<lparr>content = content m, mtype = mtype m, metadata = metadata m, sender = sender m,
      embedding = None\<rparr>"

subsection \<open>Mock interview\<close>






subsection \<open>Resume analysis\<close>





subsection \<open>Prompt, suggestions and response\<close>

text \<open>\<^verbatim>\<open>str.capitalize\<close>: the first character raised, the others lowered.\<close>

definition capitalize :: "string \<Rightarrow> string" where
  "capitalize s = (case s of [] \<Rightarrow> [] | c # cs \<Rightarrow> upper_char c # lower cs)"

text \<open>
  \<^verbatim>\<open>get_relevant_context\<close>: the contents of the stored messages most similar to the
  query, at most \<open>top_k\<close>, joined by newlines. Every stored message has its embedding
  (\<^verbatim>\<open>add_message\<close> sets it); with one embedding the score is a scalar and index 0 is
  taken.
\<close>

definition get_relevant_context ::
  "('e, 'x) env_scheme \<Rightarrow> 'e EConversationMemory \<Rightarrow> string \<Rightarrow> nat \<Rightarrow> string" where
  "get_relevant_context sv m query top_k =
     (if emessages m = [] then []
      else (let query_embedding = encode sv query;
                embeddings = List.map_filter embedding (emessages m);
                top_indices =
                  (if length embeddings = 1 then [0]
                   else rank sv query_embedding embeddings (min top_k (length (emessages m))))
            in join ''\<newline>'' (map (\<lambda>idx. content (emessages m ! idx)) top_indices)))"

definition cc_get_formatted_context ::
  "('e, 'x) env_scheme \<Rightarrow> 'e EConversationMemory \<Rightarrow> string \<Rightarrow> string" where
  "cc_get_formatted_context sv m query =
     (let relevant_context = get_relevant_context sv m query 5
      in if relevant_context \<noteq> [] then ''Relevant conversation context:\<newline>'' @ relevant_context
         else [])"

fun str_pref :: "('e, 'x) env_scheme \<Rightarrow> pref \<Rightarrow> string" where
  "str_pref sv PNone = ''None''"
| "str_pref sv (PText t) = t"
| "str_pref sv (PList xs) = repr_list sv xs"

definition cc_prepare_response_prompt ::
  "('e, 'x) env_scheme \<Rightarrow> 'e cc_PlacementChatbot \<Rightarrow> string \<Rightarrow> string" where
  "cc_prepare_response_prompt sv s query =
     (let prompt0 = cc_system_prompt s;
          prompt1 =
            (if cc_user_preferences s \<noteq> []
             then prompt0 @ foldl (\<lambda>preferences_text (key, v).
                      if truthy v
                      then preferences_text @ ''\<newline>- '' @ capitalize key @ '': '' @ str_pref sv v
                      else preferences_text)
                    ''\<newline>User Preferences:'' (cc_user_preferences s)
             else prompt0);
          context = cc_get_formatted_context sv (cc_memory s) query;
          prompt2 = (if context \<noteq> [] then prompt1 @ ''\<newline>\<newline>'' @ context else prompt1)
      in prompt2 @ ''\<newline>\<newline>User Query: '' @ query)"

text \<open>
  \<^verbatim>\<open>_generate_suggestions\<close>: the candidates are collected in a list, made a set and a
  list again (\<open>iter\<close>), and \<^verbatim>\<open>random.sample\<close> draws \<open>min(len, 3)\<close> of them at the
  positions \<open>sample\<close> gives.
\<close>

definition cc_suggestion_candidates :: "(string \<times> pref) list \<Rightarrow> string \<Rightarrow> string list" where
  "cc_suggestion_candidates prefs response =
     (if py_in ''system design'' (lower response)
      then [''Can you explain the CAP theorem?'',
            ''What are some best practices for scaling systems?'',
            ''How does load balancing work in distributed systems?'']
      else [])
     @ (if py_in ''machine learning'' (lower response)
        then [''What is overfitting and how can it be prevented?'',
              ''Can you explain the bias-variance tradeoff?'',
              ''What are common evaluation metrics for classification models?'']
        else [])
     @ (case map_of prefs ''skills'' of
          None \<Rightarrow> []
        | Some preferred_skills \<Rightarrow>
            if truthy preferred_skills
            then map (\<lambda>skill. ''How can I improve my '' @ skill @ '' skills?'')
                   (pref_items preferred_skills)
            else [])
     @ [''Can you start a mock technical interview with me?'',
        ''Can you analyze my resume?'',
        ''Can you help me with job matching?'']"

definition cc_generate_suggestions ::
  "('e, 'x) env_scheme \<Rightarrow> 'e cc_PlacementChatbot \<Rightarrow> string \<Rightarrow> string \<Rightarrow> string list" where
  "cc_generate_suggestions sv s query response =
     (let suggestions = cc_suggestion_candidates (cc_user_preferences s) response
      in if suggestions \<noteq> []
         then (let unique = iter sv (set suggestions)
               in map (\<lambda>i. unique ! i) (sample sv (length unique) (min (length unique) 3)))
         else suggestions)"

text \<open>The fixed apology of the except branch; its literal is written in two pieces.\<close>

definition cc_error_message :: "'e EMessage" where
  "cc_error_message =
     mk_emessage
       (''I'm sor'' @ ''ry, but I encountered an error while processing your request. Please try again.'')
       ERROR"

text \<open>
  \<^verbatim>\<open>get_response\<close> is itself a generator. Its \<^verbatim>\<open>return self.process_...(query)\<close>,
  \<^verbatim>\<open>return self.start_mock_interview()\<close>, \<^verbatim>\<open>return self.analyze_resume(query)\<close> and
  \<^verbatim>\<open>return self.find_jobs()\<close> create the inner generator and end the outer one: nothing
  of the inner generator runs, nothing is yielded and no field changes. Otherwise the
  user message is stored, the model is asked once and its stream is passed on; any
  exception ends the generator with one error message. The result is what is yielded,
  the chatbot left behind and the requests sent to \<open>chat\<close>.
\<close>

definition is_command :: "string \<Rightarrow> bool" where
  "is_command query =
     (py_in ''start mock interview'' (lower query)
      \<or> (py_in ''analyze my resume'' (lower query)
          \<or> (py_in ''analyze'' (lower query) \<and> py_in ''resume'' (lower query)))
      \<or> (py_in ''find jobs'' (lower query) \<or> py_in ''job matching'' (lower query)))"

definition cc_chat_request :: "('e, 'x) env_scheme \<Rightarrow> 'e cc_PlacementChatbot \<Rightarrow> string \<Rightarrow> chat_request" where
  "cc_chat_request sv s query =
     \<lparr>req_model = cc_text_model s, req_system = cc_prepare_response_prompt sv s query,
      req_user = query\<rparr>"

definition cc_get_response ::
  "('e, 'x) env_scheme \<Rightarrow> 'e cc_PlacementChatbot \<Rightarrow> string
     \<Rightarrow> 'e EMessage list \<times> 'e cc_PlacementChatbot \<times> chat_request list" where
  "cc_get_response sv s query =
     (if is_mock_interview_active s then ([], s, [])
      else if is_command query then ([], s, [])
      else (let request = cc_chat_request sv s query;
                s1 = s\<lparr>cc_memory := eadd_message (encode sv) (cc_memory s)
                        \<lparr>content = query, mtype = TEXT, metadata = None, sender = ''user'',
                         embedding = None\<rparr>\<rparr>
            in case chat sv request of
                 Inl e \<Rightarrow> ([cc_error_message], s1, [request])
               | Inr (chunks, ending) \<Rightarrow>
                   (case stream_chunks (clock sv) 0 [] chunks of
                      (yielded, current_message, k) \<Rightarrow>
                        (case ending of
                           Some e \<Rightarrow> (map to_emessage yielded @ [cc_error_message], s1, [request])
                         | None \<Rightarrow>
                             (let s2 = s1\<lparr>cc_memory := eadd_message (encode sv) (cc_memory s1)
                                        \<lparr>content = current_message, mtype = TEXT,
                                         metadata = Some (get_message_metadata (clock sv k) TEXT),
                                         sender = ''bot'', embedding = None\<rparr>\<rparr>;
                                  suggestions = cc_generate_suggestions sv s2 query current_message
                              in (map to_emessage yielded
                                  @ (if suggestions \<noteq> []
                                     then [mk_emessage (join ''\<newline>'' suggestions) SUGGESTION]
                                     else []),
                                  s2, [request]))))))"

section \<open>Chatbot (StudBud)\<close>

record PlacementChatbot =
  text_model :: string
  memory :: ConversationMemory
  system_prompt :: string

definition PlacementChatbot_init :: "string \<Rightarrow> PlacementChatbot" where
  "PlacementChatbot_init prompt =
     \<lparr>text_model = ''gemma2:27b'', memory = ConversationMemory_init 50, system_prompt = prompt\<rparr>"

definition get_formatted_context :: "('e, 'x) env_scheme \<Rightarrow> ConversationMemory \<Rightarrow> string" where
  "get_formatted_context sv m =
     (let ctx = conversation_context m;
          context_parts =
            (case current_focus ctx of
               None \<Rightarrow> []
             | Some f \<Rightarrow> if f \<noteq> [] then [''Current focus: '' @ f] else [])
            @ (if topics ctx \<noteq> {}
               then [''Active topics: '' @ join '', '' (iter sv (topics ctx))] else [])
            @ (if skills_mentioned ctx \<noteq> {}
               then [''Skills discussed: '' @ join '', '' (iter sv (skills_mentioned ctx))]
               else [])
            @ (if companies_mentioned ctx \<noteq> {}
               then [''Companies mentioned: '' @ join '', '' (iter sv (companies_mentioned ctx))]
               else [])
            @ (if messages m \<noteq> []
               then ''\<newline>Recent conversation:''
                    # map (\<lambda>msg. (if sender msg = ''user'' then ''User'' else ''Assistant'')
                                  @ '': '' @ content msg)
                        (drop (length (messages m) - 3) (messages m))
               else [])
      in join ''\<newline>'' context_parts)"

definition get_format_instructions :: "ConversationMemory \<Rightarrow> string" where
  "get_format_instructions m =
     (let current = current_focus (conversation_context m)
      in join ''\<newline>''
           (''Response Instructions:''
            # (if current = Some ''technical''
               then [''- Provide code examples in markdown format'',
                     ''- Include best practices and patterns'',
                     ''- Add relevant technical explanations'',
                     ''- Suggest resources for further learning'']
               else if current = Some ''interview''
               then [''- Structure response in interview format'',
                     ''- Include example Q&A pairs'',
                     ''- Add interviewer perspectives'',
                     ''- Provide preparation tips'']
               else if current = Some ''career''
               then [''- Offer strategic career advice'',
                     ''- Include industry insights'',
                     ''- Suggest skill development paths'',
                     ''- Provide actionable steps'']
               else [''- Structure response clearly'',
                     ''- Include relevant examples'',
                     ''- Add practical tips'',
                     ''- Suggest next steps''])))"

definition prepare_response_prompt :: "('e, 'x) env_scheme \<Rightarrow> PlacementChatbot \<Rightarrow> string \<Rightarrow> string" where
  "prepare_response_prompt sv s query =
     (let prompt0 = system_prompt s;
          context = get_formatted_context sv (memory s);
          prompt1 = (if context \<noteq> []
                     then prompt0 @ ''\<newline>\<newline>Conversation Context:\<newline>'' @ context
                     else prompt0);
          format_instructions = get_format_instructions (memory s);
          prompt2 = (if format_instructions \<noteq> []
                     then prompt1 @ ''\<newline>\<newline>'' @ format_instructions else prompt1)
      in prompt2 @ ''\<newline>\<newline>User Query: '' @ query)"

text \<open>
  \<^verbatim>\<open>_generate_suggestions\<close>: the candidates for the topics in the context, for the
  first company and for the first skill in set order; then \<^verbatim>\<open>list(set(...))\<close>, a stable
  sort by one random key per element, and the first three.
\<close>

definition suggestion_candidates :: "('e, 'x) env_scheme \<Rightarrow> ConversationContext \<Rightarrow> string list" where
  "suggestion_candidates sv ctx =
     (if ''technical'' \<in> topics ctx
      then [''Can you provide more coding examples?'',
            ''What are the best practices for this?'',
            ''How can I practice these concepts?'']
      else [])
     @ (if ''interview'' \<in> topics ctx
        then [''What are common follow-up questions?'',
              ''How should I handle behavioral questions?'',
              ''Can we do a mock interview?'']
        else [])
     @ (if ''career'' \<in> topics ctx
        then [''What skills should I focus on next?'',
              ''How can I prepare for this role?'',
              ''What are the growth opportunities?'']
        else [])
     @ (if companies_mentioned ctx \<noteq> {}
        then (let company = hd (iter sv (companies_mentioned ctx))
              in [''What is '' @ title company @ '''s interview process?'',
                  ''What skills does '' @ title company @ '' value?'',
                  ''How can I prepare for '' @ title company @ ''?''])
        else [])
     @ (if skills_mentioned ctx \<noteq> {}
        then (let skill = hd (iter sv (skills_mentioned ctx))
              in [''How can I master '' @ skill @ ''?'',
                  ''What projects can I build with '' @ skill @ ''?'',
                  ''Which companies value '' @ skill @ ''?''])
        else [])"

definition random_order :: "(nat \<Rightarrow> rat) \<Rightarrow> 'a list \<Rightarrow> 'a list" where
  "random_order r xs = map fst (sort_key snd (zip xs (map r [0..<length xs])))"

definition generate_suggestions ::
  "('e, 'x) env_scheme \<Rightarrow> PlacementChatbot \<Rightarrow> string \<Rightarrow> string \<Rightarrow> string list" where
  "generate_suggestions sv s query response =
     (let suggestions = suggestion_candidates sv (conversation_context (memory s))
      in if suggestions \<noteq> []
         then take 3 (random_order (rnd sv) (iter sv (set suggestions)))
         else suggestions)"

text \<open>
  What \<^verbatim>\<open>get_response\<close> yields: a message, or the message of type \<^verbatim>\<open>SUGGESTION\<close>
  whose content is the list of suggestions itself.
\<close>

datatype emitted = Emit Message | EmitSuggestions "string list"

fun emitted_type :: "emitted \<Rightarrow> MessageType" where
  "emitted_type (Emit m) = mtype m"
| "emitted_type (EmitSuggestions xs) = SUGGESTION"

definition error_message :: "exn \<Rightarrow> Message" where
  "error_message e =
     mk_message (''I apologize, but I encountered an error: '' @ str_exn e @ ''. Please try again.'')
       ERROR"

definition the_chat_request :: "('e, 'x) env_scheme \<Rightarrow> PlacementChatbot \<Rightarrow> string \<Rightarrow> chat_request" where
  "the_chat_request sv s query =
     \<lparr>req_model = text_model s, req_system = prepare_response_prompt sv s query,
      req_user = query\<rparr>"

definition get_response ::
  "('e, 'x) env_scheme \<Rightarrow> PlacementChatbot \<Rightarrow> string
     \<Rightarrow> emitted list \<times> PlacementChatbot \<times> chat_request list" where
  "get_response sv s query =
     (let request = the_chat_request sv s query;
          s1 = s\<lparr>memory := add_message (memory s)
                  \<lparr>content = query, mtype = TEXT, metadata = None, sender = ''user''\<rparr>\<rparr>
      in case chat sv request of
           Inl e \<Rightarrow> ([Emit (error_message e)], s1, [request])
         | Inr (chunks, ending) \<Rightarrow>
             (case stream_chunks (clock sv) 0 [] chunks of
                (yielded, current_message, k) \<Rightarrow>
                  (case ending of
                     Some e \<Rightarrow> (map Emit yielded @ [Emit (error_message e)], s1, [request])
                   | None \<Rightarrow>
                       (let s2 = s1\<lparr>memory := add_message (memory s1)
                                  \<lparr>content = current_message, mtype = TEXT,
                                   metadata = Some (get_message_metadata (clock sv k) TEXT),
                                   sender = ''bot''\<rparr>\<rparr>;
                            suggestions = generate_suggestions sv s2 query current_message
                        in (map Emit yielded
                            @ (if suggestions \<noteq> [] then [EmitSuggestions suggestions] else []),
                            s2, [request])))))"
text \<open>
  The pool that rule table draws from, for given sets of topics, companies and skills:
  the three questions of each of the topics technical, interview and career in the set,
  and the three templates for each company and for each skill in its set.
\<close>

definition canned_pool :: "string set \<Rightarrow> string set \<Rightarrow> string set \<Rightarrow> string set" where
  "canned_pool the_topics the_companies the_skills =
     (if ''technical'' \<in> the_topics
      then {''Can you provide more coding examples?'', ''What are the best practices for this?'',
            ''How can I practice these concepts?''} else {})
     \<union> (if ''interview'' \<in> the_topics
        then {''What are common follow-up questions?'',
              ''How should I handle behavioral questions?'', ''Can we do a mock interview?''}
        else {})
     \<union> (if ''career'' \<in> the_topics
        then {''What skills should I focus on next?'', ''How can I prepare for this role?'',
              ''What are the growth opportunities?''} else {})
     \<union> (\<Union>company\<in>the_companies.
          {''What is '' @ title company @ '''s interview process?'',
           ''What skills does '' @ title company @ '' value?'',
           ''How can I prepare for '' @ title company @ ''?''})
     \<union> (\<Union>skill\<in>the_skills.
          {''How can I master '' @ skill @ ''?'',
           ''What projects can I build with '' @ skill @ ''?'',
           ''Which companies value '' @ skill @ ''?''})"

section \<open>Properties of the conversation memory\<close>

lemma update_context_messages [simp]:
  "messages (update_context m c) = messages m" "max_messages (update_context m c) = max_messages m"
  by (simp_all add: update_context_def Let_def split: option.splits)

lemma add_message_messages:
  "messages (add_message m msg) =
     (if int (length (messages m)) + 1 > max_messages m then tl (messages m @ [msg])
      else messages m @ [msg])"
  by (simp add: add_message_def Let_def)

lemma add_message_max [simp]: "max_messages (add_message m msg) = max_messages m"
  by (simp add: add_message_def Let_def)

lemma foldl_add_message_max [simp]: "max_messages (foldl add_message m ms) = max_messages m"
  by (induction ms arbitrary: m) simp_all

lemma foldl_add_message_messages:
  "1 \<le> max_messages m \<Longrightarrow> int (length (messages m)) \<le> max_messages m \<Longrightarrow>
   messages (foldl add_message m ms) =
     drop (length (messages m @ ms) - nat (max_messages m)) (messages m @ ms)"
proof (induction ms arbitrary: m)
  case Nil
  then show ?case by simp
next
  case (Cons x xs)
  let ?m' = "add_message m x"
  show ?case
  proof (cases "int (length (messages m)) + 1 > max_messages m")
    case True
    with Cons.prems have len: "length (messages m) = nat (max_messages m)" and ne: "messages m \<noteq> []"
      by auto
    from True ne have msgs: "messages ?m' = tl (messages m) @ [x]"
      by (simp add: add_message_messages)
    have "int (length (messages ?m')) \<le> max_messages ?m'"
      using len ne Cons.prems by (simp add: msgs)
    with Cons.prems have "messages (foldl add_message ?m' xs) =
        drop (length (messages ?m' @ xs) - nat (max_messages m)) (messages ?m' @ xs)"
      using Cons.IH [of ?m'] by simp
    also have "\<dots> = drop (length xs) (tl (messages m) @ x # xs)"
    proof -
      have "length (messages m) > 0" using ne by simp
      then have "length (messages ?m' @ xs) - nat (max_messages m) = length xs"
        using len by (simp add: msgs)
      then show ?thesis by (simp add: msgs)
    qed
    also have "\<dots> = drop (Suc (length xs)) (messages m @ x # xs)"
      using ne by (cases "messages m") simp_all
    finally show ?thesis using len by simp
  next
    case False
    then have msgs: "messages ?m' = messages m @ [x]"
      by (simp add: add_message_messages)
    with False Cons.prems have "messages (foldl add_message ?m' xs) =
        drop (length (messages ?m' @ xs) - nat (max_messages m)) (messages ?m' @ xs)"
      using Cons.IH [of ?m'] by simp
    then show ?thesis by (simp add: msgs)
  qed
qed

lemma eadd_message_max [simp]: "emax_messages (eadd_message enc m msg) = emax_messages m"
  by (simp add: eadd_message_def Let_def)

lemma eadd_message_messages:
  "emessages (eadd_message enc m msg) =
     (if int (length (emessages m)) + 1 > emax_messages m
      then tl (emessages m @ [with_embedding enc msg])
      else emessages m @ [with_embedding enc msg])"
  by (simp add: eadd_message_def Let_def)

lemma foldl_eadd_message_messages:
  "1 \<le> emax_messages m \<Longrightarrow> int (length (emessages m)) \<le> emax_messages m \<Longrightarrow>
   emessages (foldl (eadd_message enc) m ms) =
     drop (length (emessages m @ ms) - nat (emax_messages m))
       (emessages m @ map (with_embedding enc) ms)"
proof (induction ms arbitrary: m)
  case Nil
  then show ?case by simp
next
  case (Cons x xs)
  let ?m' = "eadd_message enc m x"
  let ?x = "with_embedding enc x"
  let ?xs = "map (with_embedding enc) xs"
  show ?case
  proof (cases "int (length (emessages m)) + 1 > emax_messages m")
    case True
    with Cons.prems have len: "length (emessages m) = nat (emax_messages m)"
      and ne: "emessages m \<noteq> []"
      by auto
    from True ne have msgs: "emessages ?m' = tl (emessages m) @ [?x]"
      by (simp add: eadd_message_messages)
    have "int (length (emessages ?m')) \<le> emax_messages ?m'"
      using len ne Cons.prems by (simp add: msgs)
    with Cons.prems have "emessages (foldl (eadd_message enc) ?m' xs) =
        drop (length (emessages ?m' @ xs) - nat (emax_messages m)) (emessages ?m' @ ?xs)"
      using Cons.IH [of ?m'] by simp
    also have "\<dots> = drop (length xs) (tl (emessages m) @ ?x # ?xs)"
    proof -
      have "length (emessages m) > 0" using ne by simp
      then have "length (emessages ?m' @ xs) - nat (emax_messages m) = length xs"
        using len by (simp add: msgs)
      then show ?thesis by (simp add: msgs)
    qed
    also have "\<dots> = drop (Suc (length xs)) (emessages m @ ?x # ?xs)"
      using ne by (cases "emessages m") simp_all
    finally show ?thesis using len by simp
  next
    case False
    then have msgs: "emessages ?m' = emessages m @ [?x]"
      by (simp add: eadd_message_messages)
    with False Cons.prems have "emessages (foldl (eadd_message enc) ?m' xs) =
        drop (length (emessages ?m' @ xs) - nat (emax_messages m)) (emessages ?m' @ ?xs)"
      using Cons.IH [of ?m'] by simp
    then show ?thesis by (simp add: msgs)
  qed
qed


lemma add_topics_mono: "acc \<subseteq> add_topics tbl c acc"
  by (induction tbl c acc rule: add_topics.induct) auto

lemma add_mentions_mono: "acc \<subseteq> add_mentions ws c acc"
  by (induction ws c acc rule: add_mentions.induct) auto

lemma update_context_ctx:
  "topics (conversation_context (update_context m c)) =
     add_topics topic_table (lower c) (topics (conversation_context m))"
  "skills_mentioned (conversation_context (update_context m c)) =
     add_mentions skills_list (lower c) (skills_mentioned (conversation_context m))"
  "companies_mentioned (conversation_context (update_context m c)) =
     add_mentions companies_list (lower c) (companies_mentioned (conversation_context m))"
  "current_focus (conversation_context (update_context m c)) =
     (case find_focus focus_indicators (lower c) of
        None \<Rightarrow> current_focus (conversation_context m) | Some f \<Rightarrow> Some f)"
  by (simp_all add: update_context_def Let_def split: option.splits)

lemma add_message_ctx:
  "conversation_context (add_message m msg) =
     (if mtype msg = TEXT then conversation_context (update_context m (content msg))
      else conversation_context m)"
  by (simp add: add_message_def Let_def update_context_def split: option.splits)

lemma add_message_mono:
  "topics (conversation_context m) \<subseteq> topics (conversation_context (add_message m msg))"
  "skills_mentioned (conversation_context m)
     \<subseteq> skills_mentioned (conversation_context (add_message m msg))"
  "companies_mentioned (conversation_context m)
     \<subseteq> companies_mentioned (conversation_context (add_message m msg))"
  by (simp_all add: add_message_ctx update_context_ctx add_topics_mono add_mentions_mono)

lemma foldl_add_message_mono:
  "topics (conversation_context m) \<subseteq> topics (conversation_context (foldl add_message m ms))
   \<and> skills_mentioned (conversation_context m)
       \<subseteq> skills_mentioned (conversation_context (foldl add_message m ms))
   \<and> companies_mentioned (conversation_context m)
       \<subseteq> companies_mentioned (conversation_context (foldl add_message m ms))"
proof (induction ms arbitrary: m)
  case Nil
  show ?case by simp
next
  case (Cons x xs)
  from Cons.IH [of "add_message m x"] add_message_mono [of m x]
  show ?case by (simp del: foldl_Cons add: foldl_Cons [of add_message m x xs]) blast
qed


lemma find_focus_table:
  "find_focus focus_indicators lc =
     (if any_in [''how to'', ''example'', ''code'', ''implement''] lc then Some ''technical''
      else if any_in [''explain'', ''what is'', ''understand'', ''concept''] lc
        then Some ''conceptual''
      else if any_in [''apply'', ''use'', ''practice'', ''real world''] lc then Some ''practical''
      else if any_in [''career'', ''job'', ''future'', ''growth''] lc then Some ''career''
      else None)"
  by (simp add: focus_indicators_def)


text \<open>
  Claim C1. For every capacity \<open>cap \<ge> 1\<close> and every sequence of calls to
  \<^verbatim>\<open>add_message\<close> on a freshly constructed memory, the log never holds more than
  \<open>cap\<close> messages and is exactly the last \<open>cap\<close> messages added, oldest first
  (all of them while fewer than \<open>cap\<close> were added). Both chatbots: the
  College-Counseling-App log holds the messages with their embeddings set.
\<close>

theorem add_message_bounded_fifo:
  assumes "1 \<le> cap"
  shows "int (length (messages (foldl add_message (ConversationMemory_init cap) ms))) \<le> cap
    \<and> messages (foldl add_message (ConversationMemory_init cap) ms) =
           drop (length ms - nat cap) ms
    \<and> (cap < int (length ms) \<longrightarrow>
           length (messages (foldl add_message (ConversationMemory_init cap) ms)) = nat cap)
    \<and> int (length (emessages (foldl (eadd_message enc) (EConversationMemory_init cap) es)))
           \<le> cap
    \<and> emessages (foldl (eadd_message enc) (EConversationMemory_init cap) es) =
           drop (length es - nat cap) (map (with_embedding enc) es)
    \<and> (cap < int (length es) \<longrightarrow>
           length (emessages (foldl (eadd_message enc) (EConversationMemory_init cap) es))
             = nat cap)"
proof -
  have a: "messages (foldl add_message (ConversationMemory_init cap) ms) =
           drop (length ms - nat cap) ms"
    using assms foldl_add_message_messages [of "ConversationMemory_init cap" ms]
    by (simp add: ConversationMemory_init_def)
  have b: "emessages (foldl (eadd_message enc) (EConversationMemory_init cap) es) =
           drop (length es - nat cap) (map (with_embedding enc) es)"
    using assms foldl_eadd_message_messages [of "EConversationMemory_init cap" enc es]
    by (simp add: EConversationMemory_init_def)
  have c: "int (length (drop (length ms - nat cap) ms)) \<le> cap"
    using assms by simp
  have d: "int (length (drop (length es - nat cap) (map (with_embedding enc) es))) \<le> cap"
    using assms by simp
  have e: "cap < int (length ms) \<longrightarrow> length (drop (length ms - nat cap) ms) = nat cap"
    using assms by auto
  have f: "cap < int (length es) \<longrightarrow>
           length (drop (length es - nat cap) (map (with_embedding enc) es)) = nat cap"
    using assms by auto
  show ?thesis
    unfolding a b using c d e f by blast
qed

theorem add_message_bounded_fifo_witness:
  "(1::int) \<le> 2
   \<and> messages (foldl add_message (ConversationMemory_init 2)
         [mk_message ''a'' TEXT, mk_message ''b'' SYSTEM, mk_message ''c'' TEXT])
       = [mk_message ''b'' SYSTEM, mk_message ''c'' TEXT]
   \<and> emessages (foldl (eadd_message length) (EConversationMemory_init 2)
         [mk_emessage ''a'' TEXT, mk_emessage ''bb'' TEXT, mk_emessage ''ccc'' TEXT])
       = [with_embedding length (mk_emessage ''bb'' TEXT),
          with_embedding length (mk_emessage ''ccc'' TEXT)]"
  using add_message_bounded_fifo [of 2
      "[mk_message ''a'' TEXT, mk_message ''b'' SYSTEM, mk_message ''c'' TEXT]"
      length "[mk_emessage ''a'' TEXT, mk_emessage ''bb'' TEXT, mk_emessage ''ccc'' TEXT]"]
  by simp

text \<open>
  Claim C2. The context sets \<open>topics\<close>, \<open>skills_mentioned\<close> and
  \<open>companies_mentioned\<close> only grow: whatever the memory \<open>m\<close> and the messages,
  every label present after the calls \<open>ms\<close> is still present after any further
  calls \<open>later\<close>.
\<close>

theorem context_sets_monotonic:
  "topics (conversation_context (foldl add_message m ms))
     \<subseteq> topics (conversation_context (foldl add_message m (ms @ later)))
   \<and> skills_mentioned (conversation_context (foldl add_message m ms))
     \<subseteq> skills_mentioned (conversation_context (foldl add_message m (ms @ later)))
   \<and> companies_mentioned (conversation_context (foldl add_message m ms))
     \<subseteq> companies_mentioned (conversation_context (foldl add_message m (ms @ later)))"
  using foldl_add_message_mono [of "foldl add_message m ms" later] by simp


theorem context_sets_monotonic_witness:
  "''technical'' \<in> topics (conversation_context (foldl add_message (ConversationMemory_init 50)
       ([mk_message ''I enjoy Coding in Python at Google'' TEXT]
        @ [mk_message ''thanks'' TEXT, mk_message ''bye'' TEXT])))
   \<and> ''python'' \<in> skills_mentioned (conversation_context
       (foldl add_message (ConversationMemory_init 50)
       ([mk_message ''I enjoy Coding in Python at Google'' TEXT]
        @ [mk_message ''thanks'' TEXT, mk_message ''bye'' TEXT])))
   \<and> ''google'' \<in> companies_mentioned (conversation_context
       (foldl add_message (ConversationMemory_init 50)
       ([mk_message ''I enjoy Coding in Python at Google'' TEXT]
        @ [mk_message ''thanks'' TEXT, mk_message ''bye'' TEXT])))"
proof -
  have "''technical'' \<in> topics (conversation_context (foldl add_message
          (ConversationMemory_init 50) [mk_message ''I enjoy Coding in Python at Google'' TEXT]))"
    by code_simp
  moreover have "''python'' \<in> skills_mentioned (conversation_context (foldl add_message
          (ConversationMemory_init 50) [mk_message ''I enjoy Coding in Python at Google'' TEXT]))"
    by code_simp
  moreover have "''google'' \<in> companies_mentioned (conversation_context (foldl add_message
          (ConversationMemory_init 50) [mk_message ''I enjoy Coding in Python at Google'' TEXT]))"
    by code_simp
  ultimately show ?thesis
    using context_sets_monotonic [of "ConversationMemory_init 50"
        "[mk_message ''I enjoy Coding in Python at Google'' TEXT]"
        "[mk_message ''thanks'' TEXT, mk_message ''bye'' TEXT]"]
    by blast
qed

text \<open>
  Claim C3. \<^verbatim>\<open>_update_context\<close> sets the focus to the first category, in the order
  technical, conceptual, practical, career, one of whose indicators occurs in the lowered
  text, whatever the previous focus was; the previous focus stays only when no category
  matches. A text with a technical and a career indicator hence gets the single label
  technical.
\<close>

theorem current_focus_first_match:
  "current_focus (conversation_context (update_context m c)) =
     (if any_in [''how to'', ''example'', ''code'', ''implement''] (lower c)
        then Some ''technical''
      else if any_in [''explain'', ''what is'', ''understand'', ''concept''] (lower c)
        then Some ''conceptual''
      else if any_in [''apply'', ''use'', ''practice'', ''real world''] (lower c)
        then Some ''practical''
      else if any_in [''career'', ''job'', ''future'', ''growth''] (lower c)
        then Some ''career''
      else current_focus (conversation_context m))"
  by (simp add: update_context_ctx find_focus_table)


theorem current_focus_first_match_witness:
  "current_focus (conversation_context (update_context
      ((ConversationMemory_init 50)\<lparr>conversation_context :=
          \<lparr>topics = {}, skills_mentioned = {}, companies_mentioned = {},
           current_focus = Some ''career''\<rparr>\<rparr>)
      ''How to plan my Career growth'')) = Some ''technical''
   \<and> any_in [''career'', ''job'', ''future'', ''growth''] (lower ''How to plan my Career growth'')"
proof -
  have t: "any_in [''how to'', ''example'', ''code'', ''implement'']
             (lower ''How to plan my Career growth'')"
    by code_simp
  have c: "any_in [''career'', ''job'', ''future'', ''growth'']
             (lower ''How to plan my Career growth'')"
    by code_simp
  show ?thesis
    using c current_focus_first_match [of
      "(ConversationMemory_init 50)\<lparr>conversation_context :=
          \<lparr>topics = {}, skills_mentioned = {}, companies_mentioned = {},
           current_focus = Some ''career''\<rparr>\<rparr>" "''How to plan my Career growth''"]
    by (simp only: t if_True simp_thms)
qed

section \<open>Properties of the application manager\<close>

lemma map_of_dict_set: "map_of (dict_set k v d) k' = (if k' = k then Some v else map_of d k')"
  by (induction d) auto

lemma matching_index_append:
  "matching_index (df @ ex) ident =
     matching_index df ident @ map (\<lambda>i. i + length df) (matching_index ex ident)"
proof -
  have shift: "map (\<lambda>i. i + length df) [0..<length ex] = [length df..<length df + length ex]"
    by (simp add: map_add_upt add.commute)
  have "[0..<length df + length ex] = [0..<length df] @ [length df..<length df + length ex]"
    by (rule upt_add_eq_append) simp
  then have split: "[0..<length (df @ ex)] =
      [0..<length df] @ map (\<lambda>i. i + length df) [0..<length ex]"
    by (simp only: shift length_append)
  have left: "filter (\<lambda>i. map_of ((df @ ex) ! i) ''application_id'' = Some ident) [0..<length df]
      = filter (\<lambda>i. map_of (df ! i) ''application_id'' = Some ident) [0..<length df]"
    by (rule filter_cong) (simp_all add: nth_append)
  have right: "filter (\<lambda>i. map_of ((df @ ex) ! i) ''application_id'' = Some ident)
        (map (\<lambda>i. i + length df) [0..<length ex])
      = map (\<lambda>i. i + length df)
          (filter (\<lambda>i. map_of (ex ! i) ''application_id'' = Some ident) [0..<length ex])"
    by (simp add: filter_map comp_def nth_append)
  show ?thesis
    unfolding matching_index_def split filter_append left right ..
qed

lemma filter_upt_first:
  assumes f: "filter P [a..<b] = i # rest" and lo: "a \<le> j" and hi: "j < i"
  shows "\<not> P j"
proof -
  from f obtain us vs where uv: "[a..<b] = us @ i # vs" and none: "\<forall>u\<in>set us. \<not> P u"
    by (auto simp: filter_eq_Cons_iff)
  have "sorted (us @ i # vs)"
    by (metis uv sorted_upt)
  then have later: "\<forall>v\<in>set vs. i \<le> v"
    by (simp add: sorted_append)
  have "i \<in> set [a..<b]"
    by (simp only: uv) simp
  then have "i < b" by simp
  with lo hi have "j \<in> set [a..<b]" by simp
  then have "j \<in> set us \<or> j = i \<or> j \<in> set vs"
    by (simp only: uv) auto
  with hi later have "j \<in> set us" by auto
  with none show ?thesis by simp
qed

lemma matching_index_first:
  assumes "matching_index df ident = i # rest"
  shows "i < length df" "map_of (df ! i) ''application_id'' = Some ident"
    "\<And>j. j < i \<Longrightarrow> map_of (df ! j) ''application_id'' \<noteq> Some ident"
proof -
  let ?P = "\<lambda>i. map_of (df ! i) ''application_id'' = Some ident"
  from assms have f: "filter ?P [0..<length df] = i # rest"
    by (simp add: matching_index_def)
  then have "i \<in> set (filter ?P [0..<length df])" by simp
  then show "i < length df" "map_of (df ! i) ''application_id'' = Some ident" by auto
  fix j assume "j < i"
  with filter_upt_first [OF f, of j] show "map_of (df ! j) ''application_id'' \<noteq> Some ident"
    by simp
qed

lemma update_application_only_first:
  assumes "j < length tbl" and "snd (update_application tbl ident ups) ! j \<noteq> tbl ! j"
  shows "map_of (tbl ! j) ''application_id'' = Some ident"
    and "\<forall>k<j. map_of (tbl ! k) ''application_id'' \<noteq> Some ident"
proof -
  obtain i rest where mi: "matching_index tbl ident = i # rest"
    using assms by (cases "matching_index tbl ident") (simp_all add: update_application_def)
  have "j = i"
  proof (rule ccontr)
    assume "j \<noteq> i"
    then have "snd (update_application tbl ident ups) ! j = tbl ! j"
      by (simp add: update_application_def mi)
    with assms show False by simp
  qed
  with matching_index_first [OF mi]
  show "map_of (tbl ! j) ''application_id'' = Some ident"
    and "\<forall>k<j. map_of (tbl ! k) ''application_id'' \<noteq> Some ident"
    by simp_all
qed

lemma filter_unused:
  assumes "matching_index df ident = []"
  shows "filter (\<lambda>r. map_of r ''application_id'' \<noteq> Some ident) df = df"
proof -
  have "\<forall>r\<in>set df. map_of r ''application_id'' \<noteq> Some ident"
  proof
    fix r assume "r \<in> set df"
    then obtain i where i: "i < length df" "df ! i = r" by (auto simp: in_set_conv_nth)
    show "map_of r ''application_id'' \<noteq> Some ident"
    proof
      assume "map_of r ''application_id'' = Some ident"
      with i have "i \<in> set (matching_index df ident)" by (simp add: matching_index_def)
      with assms show False by simp
    qed
  qed
  then show ?thesis by simp
qed

text \<open>
  Claim C10. The identifier of \<^verbatim>\<open>create_application\<close> is \<open>APP_\<close> followed by the
  clock reading down to the second, so two applications created in the same second get
  the same identifier, whatever their data and microseconds. In a table that did not hold
  the identifier before, \<^verbatim>\<open>update_application\<close> with it then changes the first of the
  two rows only, and \<^verbatim>\<open>delete_application\<close> removes both. In any table, the only row
  an update changes is the first one with the identifier, and a delete keeps exactly the
  rows with another identifier.
\<close>

theorem application_id_not_unique:
  assumes same_second: "year t2 = year t1 \<and> month t2 = month t1 \<and> day t2 = day t1
      \<and> hour t2 = hour t1 \<and> minute t2 = minute t1 \<and> second t2 = second t1"
    and unused: "matching_index df (''APP_'' @ strftime_compact t1) = []"
    and create1: "create_application t1 u1 df d1 = (id1, df1)"
    and create2: "create_application t2 u2 df1 d2 = (id2, df2)"
  shows "id1 = ''APP_'' @ strftime_compact t1 \<and> id2 = id1
    \<and> length df2 = length df + 2
    \<and> map_of (df2 ! length df) ''application_id'' = Some id1
    \<and> map_of (df2 ! Suc (length df)) ''application_id'' = Some id1
    \<and> update_application df2 id1 updates =
        (True, df2[length df := foldl (\<lambda>r (key, v). dict_set key v r) (df2 ! length df) updates])
    \<and> snd (update_application df2 id1 updates) ! Suc (length df) = df2 ! Suc (length df)
    \<and> delete_application df2 id1 = (True, df)
    \<and> (\<forall>tbl ident ups j. j < length tbl
          \<and> snd (update_application tbl ident ups) ! j \<noteq> tbl ! j
          \<longrightarrow> map_of (tbl ! j) ''application_id'' = Some ident
              \<and> (\<forall>k<j. map_of (tbl ! k) ''application_id'' \<noteq> Some ident))
    \<and> (\<forall>tbl ident. snd (delete_application tbl ident) =
          filter (\<lambda>r. map_of r ''application_id'' \<noteq> Some ident) tbl)"
proof -
  define ident where "ident = ''APP_'' @ strftime_compact t1"
  define r1 where "r1 = dict_set ''applied_date'' (isoformat u1) (dict_set ''application_id'' ident d1)"
  define r2 where "r2 = dict_set ''applied_date'' (isoformat u2) (dict_set ''application_id'' ident d2)"
  have same: "strftime_compact t2 = strftime_compact t1"
    using same_second by (simp add: strftime_compact_def)
  from create1 have "id1 = ident \<and> df1 = df @ [r1]"
    unfolding create_application_def Let_def ident_def r1_def by auto
  then have id1: "id1 = ident" and df1: "df1 = df @ [r1]"
    by simp_all
  from create2 have "id2 = ident \<and> df2 = df1 @ [r2]"
    unfolding create_application_def Let_def ident_def r2_def same by auto
  then have id2: "id2 = ident" and df2: "df2 = df @ [r1, r2]"
    by (simp_all add: df1)
  have r1: "map_of r1 ''application_id'' = Some ident"
    and r2: "map_of r2 ''application_id'' = Some ident"
    by (simp_all add: map_of_dict_set r1_def r2_def)
  have unused': "matching_index df ident = []"
    using unused by (simp only: ident_def)
  have "[0..<length [r1, r2] ] = [0, 1]"
    by (simp add: upt_rec)
  then have "matching_index [r1, r2] ident = [0, 1]"
    unfolding matching_index_def using r1 r2 by simp
  then have mi: "matching_index df2 ident = [length df, Suc (length df)]"
    using unused' by (simp add: df2 matching_index_append)
  have upd: "update_application df2 id1 updates =
        (True, df2[length df := foldl (\<lambda>r (key, v). dict_set key v r) (df2 ! length df) updates])"
    unfolding update_application_def id1 mi by simp
  have other: "snd (update_application df2 id1 updates) ! Suc (length df) = df2 ! Suc (length df)"
    unfolding upd by simp
  have del: "delete_application df2 id1 = (True, df)"
    using r1 r2 filter_unused [OF unused']
    by (simp add: delete_application_def Let_def id1 df2)
  have gen_upd: "\<forall>tbl ident ups j. j < length tbl
          \<and> snd (update_application tbl ident ups) ! j \<noteq> tbl ! j
          \<longrightarrow> map_of (tbl ! j) ''application_id'' = Some ident
              \<and> (\<forall>k<j. map_of (tbl ! k) ''application_id'' \<noteq> Some ident)"
  proof (intro allI impI, elim conjE)
    fix tbl :: "row list" and ident ups j
    assume "j < length tbl" and "snd (update_application tbl ident ups) ! j \<noteq> tbl ! j"
    then show "map_of (tbl ! j) ''application_id'' = Some ident
              \<and> (\<forall>k<j. map_of (tbl ! k) ''application_id'' \<noteq> Some ident)"
      using update_application_only_first [of j tbl ident ups] by simp
  qed
  have gen_del: "\<forall>tbl ident. snd (delete_application tbl ident) =
          filter (\<lambda>r. map_of r ''application_id'' \<noteq> Some ident) tbl"
    by (simp add: delete_application_def Let_def)
  have len: "length df2 = length df + 2" by (simp add: df2)
  have c1: "map_of (df2 ! length df) ''application_id'' = Some id1"
    using r1 by (simp add: df2 id1 nth_append)
  have c2: "map_of (df2 ! Suc (length df)) ''application_id'' = Some id1"
    using r2 by (simp add: df2 id1 nth_append)
  have i1: "id1 = ''APP_'' @ strftime_compact t1" and i2: "id2 = id1"
    by (simp_all only: id1 id2 ident_def)
  show ?thesis
    by (intro conjI) (fact i1 i2 len c1 c2 upd other del gen_upd gen_del)+
qed
theorem application_id_not_unique_witness:
  "create_application
      \<lparr>year = 2024, month = 5, day = 1, hour = 12, minute = 30, second = 45, microsecond = 123\<rparr>
      \<lparr>year = 2024, month = 5, day = 1, hour = 12, minute = 30, second = 45, microsecond = 124\<rparr>
      [] [(''user_id'', ''U1'')]
     = (''APP_20240501123045'',
        [ [(''user_id'', ''U1''), (''application_id'', ''APP_20240501123045''),
          (''applied_date'', ''2024-05-01T12:30:45.000124'')] ])
   \<and> create_application
      \<lparr>year = 2024, month = 5, day = 1, hour = 12, minute = 30, second = 45, microsecond = 500\<rparr>
      \<lparr>year = 2024, month = 5, day = 1, hour = 12, minute = 30, second = 46, microsecond = 0\<rparr>
      [ [(''user_id'', ''U1''), (''application_id'', ''APP_20240501123045''),
        (''applied_date'', ''2024-05-01T12:30:45.000124'')] ]
      [(''user_id'', ''U2'')]
     = (''APP_20240501123045'',
        [ [(''user_id'', ''U1''), (''application_id'', ''APP_20240501123045''),
          (''applied_date'', ''2024-05-01T12:30:45.000124'')],
         [(''user_id'', ''U2''), (''application_id'', ''APP_20240501123045''),
          (''applied_date'', ''2024-05-01T12:30:46'')] ])
   \<and> update_application
        [ [(''user_id'', ''U1''), (''application_id'', ''APP_20240501123045''),
          (''applied_date'', ''2024-05-01T12:30:45.000124'')],
         [(''user_id'', ''U2''), (''application_id'', ''APP_20240501123045''),
          (''applied_date'', ''2024-05-01T12:30:46'')] ]
        ''APP_20240501123045'' [(''status'', ''Withdrawn'')]
     = (True,
        [ [(''user_id'', ''U1''), (''application_id'', ''APP_20240501123045''),
          (''applied_date'', ''2024-05-01T12:30:45.000124''), (''status'', ''Withdrawn'')],
         [(''user_id'', ''U2''), (''application_id'', ''APP_20240501123045''),
          (''applied_date'', ''2024-05-01T12:30:46'')] ])
   \<and> delete_application
        [ [(''user_id'', ''U1''), (''application_id'', ''APP_20240501123045''),
          (''applied_date'', ''2024-05-01T12:30:45.000124'')],
         [(''user_id'', ''U2''), (''application_id'', ''APP_20240501123045''),
          (''applied_date'', ''2024-05-01T12:30:46'')] ]
        ''APP_20240501123045''
     = (True, [])"
proof -
  let ?t1 = "\<lparr>year = 2024, month = 5, day = 1, hour = 12, minute = 30, second = 45,
              microsecond = 123\<rparr>"
  let ?u1 = "\<lparr>year = 2024, month = 5, day = 1, hour = 12, minute = 30, second = 45,
              microsecond = 124\<rparr>"
  let ?t2 = "\<lparr>year = 2024, month = 5, day = 1, hour = 12, minute = 30, second = 45,
              microsecond = 500\<rparr>"
  let ?u2 = "\<lparr>year = 2024, month = 5, day = 1, hour = 12, minute = 30, second = 46,
              microsecond = 0\<rparr>"
  let ?r1 = "[(''user_id'', ''U1''), (''application_id'', ''APP_20240501123045''),
              (''applied_date'', ''2024-05-01T12:30:45.000124'')]"
  let ?r2 = "[(''user_id'', ''U2''), (''application_id'', ''APP_20240501123045''),
              (''applied_date'', ''2024-05-01T12:30:46'')]"
  have same: "year ?t2 = year ?t1 \<and> month ?t2 = month ?t1 \<and> day ?t2 = day ?t1
      \<and> hour ?t2 = hour ?t1 \<and> minute ?t2 = minute ?t1 \<and> second ?t2 = second ?t1"
    by simp
  have unused: "matching_index [] (''APP_'' @ strftime_compact ?t1) = []"
    by (simp add: matching_index_def)
  have c1: "create_application ?t1 ?u1 [] [(''user_id'', ''U1'')]
      = (''APP_20240501123045'', [?r1])"
    by code_simp
  have c2: "create_application ?t2 ?u2 [?r1] [(''user_id'', ''U2'')]
      = (''APP_20240501123045'', [?r1, ?r2])"
    by code_simp
  note all = application_id_not_unique [OF same unused c1 c2, of "[(''status'', ''Withdrawn'')]"]
  from all have upd: "update_application [?r1, ?r2] ''APP_20240501123045''
      [(''status'', ''Withdrawn'')]
      = (True, [?r1, ?r2][length ([] :: row list) :=
           foldl (\<lambda>r (key, v). dict_set key v r) ([?r1, ?r2] ! length ([] :: row list))
             [(''status'', ''Withdrawn'')] ])"
    by (elim conjE)
  from all have del: "delete_application [?r1, ?r2] ''APP_20240501123045'' = (True, [])"
    by (elim conjE)
  have "foldl (\<lambda>r (key, v). dict_set key v r) ?r1 [(''status'', ''Withdrawn'')]
      = ?r1 @ [(''status'', ''Withdrawn'')]"
    by simp
  with upd have upd': "update_application [?r1, ?r2] ''APP_20240501123045''
      [(''status'', ''Withdrawn'')] = (True, [?r1 @ [(''status'', ''Withdrawn'')], ?r2])"
    by simp
  show ?thesis
    using c1 c2 upd' del by simp
qed


section \<open>Properties of authentication\<close>

lemma lower_admin: "lower ''ADMIN@atlas.edu'' = ''admin@atlas.edu''"
  by code_simp

lemma lower_stored:
  "lower ''admin@atlas.edu'' = ''admin@atlas.edu''"
  "lower ''student@atlas.edu'' = ''student@atlas.edu''"
  by code_simp+

text \<open>
  Claim C9, at the login \<open>ADMIN@atlas.edu\<close> / \<open>admin123\<close> on the default users table:
  the login succeeds with the administrator's identifier, name and role, and the table is
  returned as it was, no \<^verbatim>\<open>last_login\<close> changed. With the email spelled as stored,
  the same login sets the administrator's \<^verbatim>\<open>last_login\<close> to the clock reading.
\<close>

theorem authenticate_user_case_mismatch:
  "authenticate_user now (default_users created) ''ADMIN@atlas.edu'' ''admin123''
     = (default_users created, True, ''Login successful'',
        Some \<lparr>info_user_id = ''USR_001'', info_name = ''Admin User'', info_role = ''admin''\<rparr>)
   \<and> authenticate_user now (default_users created) ''admin@atlas.edu'' ''admin123''
     = ((default_users created)[0 := (default_users created ! 0)\<lparr>last_login := isoformat now\<rparr>],
        True, ''Login successful'',
        Some \<lparr>info_user_id = ''USR_001'', info_name = ''Admin User'', info_role = ''admin''\<rparr>)"
  by (simp add: authenticate_user_def default_users_def lower_admin lower_stored)

section \<open>Properties of the job manager\<close>

lemma digit_runs_empty:
  "digit_runs run cs = [] \<longleftrightarrow> run = [] \<and> (\<forall>c\<in>set cs. \<not> is_digit c)"
  by (induction cs arbitrary: run) auto

lemma findall_digits_empty: "findall_digits x = [] \<longleftrightarrow> (\<forall>c\<in>set x. \<not> is_digit c)"
  by (simp add: findall_digits_def digit_runs_empty)

lemma salary_min_of_error: "salary_min_of x = Inl e \<Longrightarrow> e = IndexError"
  by (auto simp: salary_min_of_def split: list.splits)

lemma series_apply_raises:
  assumes "x \<in> set xs" and "f x = Inl e" and "\<And>y e'. f y = Inl e' \<Longrightarrow> e' = e"
  shows "series_apply f xs = Inl e"
  using assms(1,2)
proof (induction xs)
  case Nil
  then show ?case by simp
next
  case (Cons y ys)
  show ?case
  proof (cases "f y")
    case (Inl e')
    with assms(3) show ?thesis by auto
  next
    case (Inr v)
    with Cons have "series_apply f ys = Inl e" by auto
    with Inr show ?thesis by simp
  qed
qed

lemma series_apply_some_error:
  "x \<in> set xs \<Longrightarrow> f x = Inl e \<Longrightarrow> \<exists>e'. series_apply f xs = Inl e'"
  by (induction xs) (auto split: sum.splits)

lemma series_apply_total:
  "\<forall>x\<in>set xs. \<exists>y. f x = Inr y \<Longrightarrow> \<exists>ys. series_apply f xs = Inr ys"
  by (induction xs) (auto split: sum.splits)

text \<open>
  Claim C8. When some stored job has a \<^verbatim>\<open>salary_range\<close> without a digit,
  \<^verbatim>\<open>get_jobs\<close> raises \<^verbatim>\<open>IndexError\<close> whatever the filters, already while it computes
  the \<^verbatim>\<open>salary_min\<close> column; \<^verbatim>\<open>get_job_statistics\<close> on that file raises too, and
  raises this \<^verbatim>\<open>IndexError\<close> when the posted dates parse. Neither returns a value.
\<close>

theorem get_jobs_raises_on_digitless_salary:
  assumes "j \<in> set jobs_df" and "\<forall>c\<in>set (salary_range j). \<not> is_digit c"
  shows "series_apply salary_min_of (map salary_range jobs_df) = Inl IndexError
    \<and> get_jobs refine jobs_df filters = Inl IndexError
    \<and> (\<exists>e. get_job_statistics to_datetime week_ago (Some jobs_df) = Inl e)
    \<and> ((\<forall>d\<in>set jobs_df. \<exists>t. to_datetime (posted_date d) = Inr t) \<longrightarrow>
         get_job_statistics to_datetime week_ago (Some jobs_df) = Inl IndexError)"
proof -
  from assms(2) have "salary_min_of (salary_range j) = Inl IndexError"
    by (simp add: salary_min_of_def findall_digits_empty [THEN iffD2])
  moreover from assms(1) have "salary_range j \<in> set (map salary_range jobs_df)"
    by simp
  ultimately have col: "series_apply salary_min_of (map salary_range jobs_df) = Inl IndexError"
    using series_apply_raises [of "salary_range j" "map salary_range jobs_df" salary_min_of IndexError]
      salary_min_of_error by blast
  have jobs: "get_jobs refine jobs_df filters = Inl IndexError"
    by (simp add: get_jobs_def col)
  have stats_some: "\<exists>e. get_job_statistics to_datetime week_ago (Some jobs_df) = Inl e"
    by (cases "series_apply to_datetime (map posted_date jobs_df)")
      (simp_all add: get_job_statistics_def col)
  have stats: "(\<forall>d\<in>set jobs_df. \<exists>t. to_datetime (posted_date d) = Inr t) \<longrightarrow>
         get_job_statistics to_datetime week_ago (Some jobs_df) = Inl IndexError"
  proof
    assume "\<forall>d\<in>set jobs_df. \<exists>t. to_datetime (posted_date d) = Inr t"
    then have "\<forall>x\<in>set (map posted_date jobs_df). \<exists>t. to_datetime x = Inr t" by simp
    from series_apply_total [OF this]
    obtain ds where "series_apply to_datetime (map posted_date jobs_df) = Inr ds" ..
    then show "get_job_statistics to_datetime week_ago (Some jobs_df) = Inl IndexError"
      by (simp add: get_job_statistics_def col)
  qed
  show ?thesis
    by (intro conjI) (fact col jobs stats_some stats)+
qed

theorem get_jobs_raises_on_digitless_salary_witness:
  "get_jobs (\<lambda>f df. df)
      [\<lparr>job_id = ''1'', job_title = ''Engineer'', company = ''Acme'', location = ''Pune'',
        salary_range = ''5-10 LPA'', job_type = ''Full-time'', posted_date = ''2024-05-01'',
        description = ''d'', skills = ''python'', status = ''Open''\<rparr>,
       \<lparr>job_id = ''2'', job_title = ''Analyst'', company = ''Acme'', location = ''Pune'',
        salary_range = ''Negotiable'', job_type = ''Full-time'', posted_date = ''2024-05-02'',
        description = ''d'', skills = ''sql'', status = ''Open''\<rparr>]
      (None :: unit option) = Inl IndexError
   \<and> get_job_statistics (\<lambda>s. Inr 0) 0
      (Some [\<lparr>job_id = ''1'', job_title = ''Engineer'', company = ''Acme'', location = ''Pune'',
        salary_range = ''5-10 LPA'', job_type = ''Full-time'', posted_date = ''2024-05-01'',
        description = ''d'', skills = ''python'', status = ''Open''\<rparr>,
       \<lparr>job_id = ''2'', job_title = ''Analyst'', company = ''Acme'', location = ''Pune'',
        salary_range = ''Negotiable'', job_type = ''Full-time'', posted_date = ''2024-05-02'',
        description = ''d'', skills = ''sql'', status = ''Open''\<rparr>]) = Inl IndexError
   \<and> salary_min_of ''5-10 LPA'' = Inr 5 \<and> salary_max_of ''5-10 LPA'' = Inr 10"
proof -
  let ?good = "\<lparr>job_id = ''1'', job_title = ''Engineer'', company = ''Acme'', location = ''Pune'',
        salary_range = ''5-10 LPA'', job_type = ''Full-time'', posted_date = ''2024-05-01'',
        description = ''d'', skills = ''python'', status = ''Open''\<rparr>"
  let ?bad = "\<lparr>job_id = ''2'', job_title = ''Analyst'', company = ''Acme'', location = ''Pune'',
        salary_range = ''Negotiable'', job_type = ''Full-time'', posted_date = ''2024-05-02'',
        description = ''d'', skills = ''sql'', status = ''Open''\<rparr>"
  have mem: "?bad \<in> set [?good, ?bad]" by simp
  have "\<forall>c\<in>set ''Negotiable''. \<not> is_digit c"
    by (simp add: is_digit_def)
  then have nodigit: "\<forall>c\<in>set (salary_range ?bad). \<not> is_digit c" by simp
  have dates: "\<forall>d\<in>set [?good, ?bad]. \<exists>t. (\<lambda>s. Inr 0 :: exn + int) (posted_date d) = Inr t"
    by simp
  have lo: "salary_min_of ''5-10 LPA'' = Inr 5" by code_simp
  have hi: "salary_max_of ''5-10 LPA'' = Inr 10" by code_simp
  from get_jobs_raises_on_digitless_salary [OF mem nodigit,
      of "\<lambda>f df. df" "None :: unit option" "\<lambda>s. Inr 0" 0] dates lo hi
  show ?thesis by blast
qed

section \<open>Properties of the mock interview and the resume analysis\<close>



lemma py_index_in_range: "i < length xs \<Longrightarrow> py_index xs (int i) = Inr (xs ! i)"
  by (simp add: py_index_def Let_def)





section \<open>Properties of the response generators\<close>

lemma stream_chunks_text:
  "stream_chunks clk k cur chunks = (ys, fin, k') \<Longrightarrow> \<forall>m\<in>set ys. mtype m = TEXT"
proof (induction clk k cur chunks arbitrary: ys fin k' rule: stream_chunks.induct)
  case (1 clk k cur)
  then show ?case by simp
next
  case (2 clk k cur rest)
  then show ?case by simp
next
  case (3 clk k cur c rest)
  show ?case
  proof (cases "c = []")
    case True
    with 3 show ?thesis by simp
  next
    case False
    obtain ys' fin' k'' where rest: "stream_chunks clk (Suc k) (cur @ c) rest = (ys', fin', k'')"
      by (cases "stream_chunks clk (Suc k) (cur @ c) rest") auto
    with False "3.prems" have ys: "ys = \<lparr>content = c, mtype = TEXT,
        metadata = Some (get_message_metadata (clk k) TEXT), sender = ''bot''\<rparr> # ys'"
      by simp
    from "3.IH"(2) [OF False rest] have "\<forall>m\<in>set ys'. mtype m = TEXT" .
    with ys show ?thesis by simp
  qed
qed

lemma filter_error_texts:
  "\<forall>m\<in>set ys. mtype m = TEXT \<Longrightarrow> filter (\<lambda>m. emitted_type m = ERROR) (map Emit ys) = []"
  by (induction ys) auto

lemma cc_filter_error_texts:
  "\<forall>m\<in>set ys. mtype m = TEXT \<Longrightarrow>
   filter (\<lambda>m. mtype m = ERROR) (map to_emessage ys :: 'e EMessage list) = []"
  by (induction ys) (auto simp: to_emessage_def)

lemma get_response_raised:
  assumes "chat sv (the_chat_request sv s query) = Inl e
      \<or> (\<exists>chunks. chat sv (the_chat_request sv s query) = Inr (chunks, Some e))"
  shows "\<exists>texts. get_response sv s query =
      (map Emit texts @ [Emit (error_message e)],
       s\<lparr>memory := add_message (memory s)
            \<lparr>content = query, mtype = TEXT, metadata = None, sender = ''user''\<rparr>\<rparr>,
       [the_chat_request sv s query])
    \<and> (\<forall>m\<in>set texts. mtype m = TEXT)"
  using assms
proof
  assume "chat sv (the_chat_request sv s query) = Inl e"
  then have "get_response sv s query =
      (map Emit [] @ [Emit (error_message e)],
       s\<lparr>memory := add_message (memory s)
            \<lparr>content = query, mtype = TEXT, metadata = None, sender = ''user''\<rparr>\<rparr>,
       [the_chat_request sv s query])"
    by (simp add: get_response_def Let_def)
  then show ?thesis by (intro exI [of _ "[]"]) simp
next
  assume "\<exists>chunks. chat sv (the_chat_request sv s query) = Inr (chunks, Some e)"
  then obtain chunks where c: "chat sv (the_chat_request sv s query) = Inr (chunks, Some e)" ..
  obtain ys fin k where st: "stream_chunks (clock sv) 0 [] chunks = (ys, fin, k)"
    by (cases "stream_chunks (clock sv) 0 [] chunks") auto
  have "get_response sv s query =
      (map Emit ys @ [Emit (error_message e)],
       s\<lparr>memory := add_message (memory s)
            \<lparr>content = query, mtype = TEXT, metadata = None, sender = ''user''\<rparr>\<rparr>,
       [the_chat_request sv s query])"
    by (simp add: get_response_def Let_def c st)
  with stream_chunks_text [OF st] show ?thesis by blast
qed

lemma cc_get_response_raised:
  assumes "\<not> is_mock_interview_active s" and "\<not> is_command query"
    and "chat sv (cc_chat_request sv s query) = Inl e
      \<or> (\<exists>chunks. chat sv (cc_chat_request sv s query) = Inr (chunks, Some e))"
  shows "\<exists>texts. cc_get_response sv s query =
      (map to_emessage texts @ [cc_error_message],
       s\<lparr>cc_memory := eadd_message (encode sv) (cc_memory s)
            \<lparr>content = query, mtype = TEXT, metadata = None, sender = ''user'',
             embedding = None\<rparr>\<rparr>,
       [cc_chat_request sv s query])
    \<and> (\<forall>m\<in>set texts. mtype m = TEXT)"
  using assms(3)
proof
  assume "chat sv (cc_chat_request sv s query) = Inl e"
  with assms(1,2) have "cc_get_response sv s query =
      (map to_emessage [] @ [cc_error_message],
       s\<lparr>cc_memory := eadd_message (encode sv) (cc_memory s)
            \<lparr>content = query, mtype = TEXT, metadata = None, sender = ''user'',
             embedding = None\<rparr>\<rparr>,
       [cc_chat_request sv s query])"
    by (simp add: cc_get_response_def Let_def)
  then show ?thesis by (intro exI [of _ "[]"]) simp
next
  assume "\<exists>chunks. chat sv (cc_chat_request sv s query) = Inr (chunks, Some e)"
  then obtain chunks where c: "chat sv (cc_chat_request sv s query) = Inr (chunks, Some e)" ..
  obtain ys fin k where st: "stream_chunks (clock sv) 0 [] chunks = (ys, fin, k)"
    by (cases "stream_chunks (clock sv) 0 [] chunks") auto
  from assms(1,2) have "cc_get_response sv s query =
      (map to_emessage ys @ [cc_error_message],
       s\<lparr>cc_memory := eadd_message (encode sv) (cc_memory s)
            \<lparr>content = query, mtype = TEXT, metadata = None, sender = ''user'',
             embedding = None\<rparr>\<rparr>,
       [cc_chat_request sv s query])"
    by (simp add: cc_get_response_def Let_def c st)
  with stream_chunks_text [OF st] show ?thesis by blast
qed

text \<open>
  Claim C5. When the model call of \<^verbatim>\<open>get_response\<close> raises, at the call or while the
  stream is read, the generator yields the text messages of the chunks read so far and
  then one message of type \<^verbatim>\<open>ERROR\<close>, which is the last and the only one of its type;
  no suggestion follows, the model was asked once, and only the user message was stored.
  This holds for the StudBud chatbot with any service, and for the College-Counseling-App
  chatbot with any service whenever the model is called at all: no interview active and
  no command phrase in the query.
\<close>

theorem get_response_single_error_message:
  fixes sv :: "('e, 'x) env_scheme" and s :: PlacementChatbot
    and csv :: "('c, 'y) env_scheme" and cs :: "'c cc_PlacementChatbot"
  shows "((chat sv (the_chat_request sv s query) = Inl e
          \<or> (\<exists>chunks. chat sv (the_chat_request sv s query) = Inr (chunks, Some e)))
      \<longrightarrow> (\<exists>texts. fst (get_response sv s query) = map Emit texts @ [Emit (error_message e)]
              \<and> (\<forall>m\<in>set texts. mtype m = TEXT))
        \<and> length (filter (\<lambda>m. emitted_type m = ERROR) (fst (get_response sv s query))) = 1
        \<and> emitted_type (last (fst (get_response sv s query))) = ERROR
        \<and> (\<forall>m\<in>set (fst (get_response sv s query)). emitted_type m \<noteq> SUGGESTION)
        \<and> snd (snd (get_response sv s query)) = [the_chat_request sv s query]
        \<and> memory (fst (snd (get_response sv s query))) = add_message (memory s)
              \<lparr>content = query, mtype = TEXT, metadata = None, sender = ''user''\<rparr>)
    \<and> ((\<not> is_mock_interview_active cs \<and> \<not> is_command cquery
          \<and> (chat csv (cc_chat_request csv cs cquery) = Inl ce
              \<or> (\<exists>chunks. chat csv (cc_chat_request csv cs cquery) = Inr (chunks, Some ce))))
      \<longrightarrow> (\<exists>texts. fst (cc_get_response csv cs cquery)
                = map to_emessage texts @ [cc_error_message]
              \<and> (\<forall>m\<in>set texts. mtype m = TEXT))
        \<and> length (filter (\<lambda>m. mtype m = ERROR) (fst (cc_get_response csv cs cquery))) = 1
        \<and> mtype (last (fst (cc_get_response csv cs cquery))) = ERROR
        \<and> (\<forall>m\<in>set (fst (cc_get_response csv cs cquery)). mtype m \<noteq> SUGGESTION)
        \<and> snd (snd (cc_get_response csv cs cquery)) = [cc_chat_request csv cs cquery]
        \<and> cc_memory (fst (snd (cc_get_response csv cs cquery))) =
             eadd_message (encode csv) (cc_memory cs)
               \<lparr>content = cquery, mtype = TEXT, metadata = None, sender = ''user'',
                embedding = None\<rparr>)"
proof (intro conjI impI)
  assume raised: "chat sv (the_chat_request sv s query) = Inl e
      \<or> (\<exists>chunks. chat sv (the_chat_request sv s query) = Inr (chunks, Some e))"
  from get_response_raised [OF raised] obtain texts where
    r: "get_response sv s query =
      (map Emit texts @ [Emit (error_message e)],
       s\<lparr>memory := add_message (memory s)
            \<lparr>content = query, mtype = TEXT, metadata = None, sender = ''user''\<rparr>\<rparr>,
       [the_chat_request sv s query])"
    and t: "\<forall>m\<in>set texts. mtype m = TEXT"
    by blast
  have err: "mtype (error_message e) = ERROR"
    by (simp add: error_message_def mk_message_def)
  show "\<exists>texts. fst (get_response sv s query) = map Emit texts @ [Emit (error_message e)]
            \<and> (\<forall>m\<in>set texts. mtype m = TEXT)"
    using r t by auto
  show "length (filter (\<lambda>m. emitted_type m = ERROR) (fst (get_response sv s query))) = 1"
    using filter_error_texts [OF t] by (simp add: r err)
  show "emitted_type (last (fst (get_response sv s query))) = ERROR"
    by (simp add: r err)
  show "\<forall>m\<in>set (fst (get_response sv s query)). emitted_type m \<noteq> SUGGESTION"
    using t by (auto simp: r err)
  show "snd (snd (get_response sv s query)) = [the_chat_request sv s query]"
    by (simp add: r)
  show "memory (fst (snd (get_response sv s query))) = add_message (memory s)
          \<lparr>content = query, mtype = TEXT, metadata = None, sender = ''user''\<rparr>"
    by (simp add: r)
next
  assume called: "\<not> is_mock_interview_active cs \<and> \<not> is_command cquery
          \<and> (chat csv (cc_chat_request csv cs cquery) = Inl ce
              \<or> (\<exists>chunks. chat csv (cc_chat_request csv cs cquery) = Inr (chunks, Some ce)))"
  then have h1: "\<not> is_mock_interview_active cs" and h2: "\<not> is_command cquery"
    and h3: "chat csv (cc_chat_request csv cs cquery) = Inl ce
              \<or> (\<exists>chunks. chat csv (cc_chat_request csv cs cquery) = Inr (chunks, Some ce))"
    by simp_all
  from cc_get_response_raised [OF h1 h2 h3] obtain ctexts where
    cr: "cc_get_response csv cs cquery =
      (map to_emessage ctexts @ [cc_error_message],
       cs\<lparr>cc_memory := eadd_message (encode csv) (cc_memory cs)
            \<lparr>content = cquery, mtype = TEXT, metadata = None, sender = ''user'',
             embedding = None\<rparr>\<rparr>,
       [cc_chat_request csv cs cquery])"
    and ct: "\<forall>m\<in>set ctexts. mtype m = TEXT"
    by blast
  have err: "mtype (cc_error_message :: 'c EMessage) = ERROR"
    by (simp add: cc_error_message_def mk_emessage_def)
  show "\<exists>texts. fst (cc_get_response csv cs cquery)
                = map to_emessage texts @ [cc_error_message]
            \<and> (\<forall>m\<in>set texts. mtype m = TEXT)"
    using cr ct by auto
  show "length (filter (\<lambda>m. mtype m = ERROR) (fst (cc_get_response csv cs cquery))) = 1"
    using cc_filter_error_texts [OF ct, where ?'e = 'c] by (simp add: cr err)
  show "mtype (last (fst (cc_get_response csv cs cquery))) = ERROR"
    by (simp add: cr err)
  show "\<forall>m\<in>set (fst (cc_get_response csv cs cquery)). mtype m \<noteq> SUGGESTION"
    using ct by (auto simp: cr err to_emessage_def)
  show "snd (snd (cc_get_response csv cs cquery)) = [cc_chat_request csv cs cquery]"
    by (simp add: cr)
  show "cc_memory (fst (snd (cc_get_response csv cs cquery))) =
         eadd_message (encode csv) (cc_memory cs)
           \<lparr>content = cquery, mtype = TEXT, metadata = None, sender = ''user'',
            embedding = None\<rparr>"
    by (simp add: cr)
qed

theorem get_response_single_error_message_witness:
  "length (filter (\<lambda>m. emitted_type m = ERROR)
      (fst (get_response
        \<lparr>chat = (\<lambda>r. Inr ([Some ''Hel'', None, Some ''lo''], Some (ServiceError ''timeout''))),
         generate = (\<lambda>r. Inr (Some ''ok'')), encode = length, rank = (\<lambda>q es k. [0..<k]),
         clock = (\<lambda>k. ''t''), iter = (\<lambda>S. []), rnd = (\<lambda>k. 0), sample = (\<lambda>n k. [0..<k]),
         repr_list = concat\<rparr>
        (PlacementChatbot_init ''sys'') ''hi''))) = 1
   \<and> map emitted_type
      (fst (get_response
        \<lparr>chat = (\<lambda>r. Inr ([Some ''Hel'', None, Some ''lo''], Some (ServiceError ''timeout''))),
         generate = (\<lambda>r. Inr (Some ''ok'')), encode = length, rank = (\<lambda>q es k. [0..<k]),
         clock = (\<lambda>k. ''t''), iter = (\<lambda>S. []), rnd = (\<lambda>k. 0), sample = (\<lambda>n k. [0..<k]),
         repr_list = concat\<rparr>
        (PlacementChatbot_init ''sys'') ''hi'')) = [TEXT, TEXT, ERROR]
   \<and> length (filter (\<lambda>m. mtype m = ERROR)
      (fst (cc_get_response
        \<lparr>chat = (\<lambda>r. Inr ([Some ''Hel'', None, Some ''lo''], Some (ServiceError ''timeout''))),
         generate = (\<lambda>r. Inr (Some ''ok'')), encode = length, rank = (\<lambda>q es k. [0..<k]),
         clock = (\<lambda>k. ''t''), iter = (\<lambda>S. []), rnd = (\<lambda>k. 0), sample = (\<lambda>n k. [0..<k]),
         repr_list = concat\<rparr>
        (cc_PlacementChatbot_init ''sys'') ''hi''))) = 1
   \<and> map mtype
      (fst (cc_get_response
        \<lparr>chat = (\<lambda>r. Inr ([Some ''Hel'', None, Some ''lo''], Some (ServiceError ''timeout''))),
         generate = (\<lambda>r. Inr (Some ''ok'')), encode = length, rank = (\<lambda>q es k. [0..<k]),
         clock = (\<lambda>k. ''t''), iter = (\<lambda>S. []), rnd = (\<lambda>k. 0), sample = (\<lambda>n k. [0..<k]),
         repr_list = concat\<rparr>
        (cc_PlacementChatbot_init ''sys'') ''hi'')) = [TEXT, TEXT, ERROR]"
proof -
  let ?sv = "\<lparr>chat = (\<lambda>r. Inr ([Some ''Hel'', None, Some ''lo''], Some (ServiceError ''timeout''))),
         generate = (\<lambda>r. Inr (Some ''ok'')), encode = length, rank = (\<lambda>q es k. [0..<k]),
         clock = (\<lambda>k. ''t''), iter = (\<lambda>S. []), rnd = (\<lambda>k. 0), sample = (\<lambda>n k. [0..<k]),
         repr_list = concat\<rparr> :: nat env"
  let ?s = "PlacementChatbot_init ''sys''"
  let ?cs = "cc_PlacementChatbot_init ''sys'' :: nat cc_PlacementChatbot"
  have h1: "chat ?sv (the_chat_request ?sv ?s ''hi'') = Inl (ServiceError ''timeout'')
      \<or> (\<exists>chunks. chat ?sv (the_chat_request ?sv ?s ''hi'')
            = Inr (chunks, Some (ServiceError ''timeout'')))"
    by simp
  have h2: "\<not> is_mock_interview_active ?cs"
    by (simp add: cc_PlacementChatbot_init_def)
  have h3: "\<not> is_command ''hi''"
    by code_simp
  have h4: "chat ?sv (cc_chat_request ?sv ?cs ''hi'') = Inl (ServiceError ''timeout'')
      \<or> (\<exists>chunks. chat ?sv (cc_chat_request ?sv ?cs ''hi'')
            = Inr (chunks, Some (ServiceError ''timeout'')))"
    by simp
  note all = get_response_single_error_message [where sv = ?sv and s = ?s
      and query = "''hi''" and e = "ServiceError ''timeout''" and csv = ?sv and cs = ?cs
      and cquery = "''hi''" and ce = "ServiceError ''timeout''"]
  from all h1 have n1: "length (filter (\<lambda>m. emitted_type m = ERROR)
      (fst (get_response ?sv ?s ''hi''))) = 1"
    by blast
  from all h2 h3 h4 have n2: "length (filter (\<lambda>m. mtype m = ERROR)
      (fst (cc_get_response ?sv ?cs ''hi''))) = 1"
    by blast
  have e1: "map emitted_type (fst (get_response ?sv ?s ''hi'')) = [TEXT, TEXT, ERROR]"
    by (simp add: get_response_def Let_def error_message_def mk_message_def)
  have e2: "map mtype (fst (cc_get_response ?sv ?cs ''hi'')) = [TEXT, TEXT, ERROR]"
    using h2 h3
    by (simp add: cc_get_response_def Let_def cc_error_message_def mk_emessage_def
        to_emessage_def)
  show ?thesis
    by (intro conjI) (fact n1 e1 n2 e2)+
qed

section \<open>Properties of the suggestions\<close>

lemma random_order_set: "set (random_order r xs) = set xs"
proof -
  let ?zs = "zip xs (map r [0..<length xs])"
  have fst_zs: "map fst ?zs = xs"
    by (simp add: map_fst_zip)
  have "set (random_order r xs) = fst ` set ?zs"
    by (simp add: random_order_def)
  also have "\<dots> = set (map fst ?zs)"
    by (simp only: set_map)
  finally show ?thesis
    by (simp only: fst_zs)
qed

lemma random_order_distinct:
  assumes "distinct xs"
  shows "distinct (random_order r xs)"
proof -
  let ?zs = "zip xs (map r [0..<length xs])"
  have "map fst ?zs = xs" by (simp add: map_fst_zip)
  with assms have "distinct (map fst ?zs)" by (simp only:)
  then have "distinct ?zs \<and> inj_on fst (set ?zs)"
    by (simp only: distinct_map)
  then have "distinct (sort_key snd ?zs) \<and> inj_on fst (set (sort_key snd ?zs))"
    by (simp only: distinct_sort set_sort)
  then have "distinct (map fst (sort_key snd ?zs))"
    by (simp only: distinct_map)
  then show ?thesis
    by (simp only: random_order_def)
qed

lemma sample_distinct:
  assumes "distinct xs" and "distinct idx" and "\<forall>i\<in>set idx. i < length xs"
  shows "distinct (map (\<lambda>i. xs ! i) idx)"
proof -
  have "inj_on (\<lambda>i. xs ! i) (set idx)"
    using assms(1,3) by (auto simp: inj_on_def nth_eq_iff_index_eq)
  with assms(2) show ?thesis by (simp add: distinct_map)
qed

lemma hd_iter_mem:
  assumes "set (it S) = S" and "S \<noteq> {}"
  shows "hd (it S) \<in> S"
proof -
  from assms have "it S \<noteq> []" by auto
  then have "hd (it S) \<in> set (it S)" by simp
  with assms show ?thesis by simp
qed

lemma add_mentions_within: "acc \<subseteq> set ws' \<Longrightarrow> set ws \<subseteq> set ws' \<Longrightarrow>
    add_mentions ws c acc \<subseteq> set ws'"
  by (induction ws c acc rule: add_mentions.induct) auto

lemma add_topics_within:
  "acc \<subseteq> labels \<Longrightarrow> fst ` set tbl \<subseteq> labels \<Longrightarrow> add_topics tbl c acc \<subseteq> labels"
proof (induction tbl c acc rule: add_topics.induct)
  case (1 c acc)
  then show ?case by simp
next
  case (2 topic kws rest c acc)
  from "2.prems"(2) have t: "topic \<in> labels" and r: "fst ` set rest \<subseteq> labels"
    by simp_all
  from "2.prems"(1) t have "(if any_in kws c then insert topic acc else acc) \<subseteq> labels"
    by simp
  from "2.IH" [OF this r] show ?case by simp
qed

lemma reachable_context_within:
  "companies_mentioned (conversation_context m) \<subseteq> set companies_list \<Longrightarrow>
   skills_mentioned (conversation_context m) \<subseteq> set skills_list \<Longrightarrow>
   topics (conversation_context m) \<subseteq> fst ` set topic_table \<Longrightarrow>
   companies_mentioned (conversation_context (foldl add_message m ms)) \<subseteq> set companies_list
   \<and> skills_mentioned (conversation_context (foldl add_message m ms)) \<subseteq> set skills_list
   \<and> topics (conversation_context (foldl add_message m ms)) \<subseteq> fst ` set topic_table"
proof (induction ms arbitrary: m)
  case Nil
  then show ?case by simp
next
  case (Cons x xs)
  have "companies_mentioned (conversation_context (add_message m x)) \<subseteq> set companies_list"
    using Cons.prems(1) by (simp add: add_message_ctx update_context_ctx add_mentions_within)
  moreover have "skills_mentioned (conversation_context (add_message m x)) \<subseteq> set skills_list"
    using Cons.prems(2) by (simp add: add_message_ctx update_context_ctx add_mentions_within)
  moreover have "topics (conversation_context (add_message m x)) \<subseteq> fst ` set topic_table"
    using Cons.prems(3) by (simp add: add_message_ctx update_context_ctx add_topics_within)
  ultimately show ?case
    using Cons.IH [of "add_message m x"] by simp
qed
lemma suggestion_candidates_pool:
  assumes it: "\<forall>S. finite S \<longrightarrow> set (iter sv S) = S \<and> distinct (iter sv S)"
    and fc: "finite (companies_mentioned ctx)" and fs: "finite (skills_mentioned ctx)"
  shows "set (suggestion_candidates sv ctx) \<subseteq>
      (if ''technical'' \<in> topics ctx
       then {''Can you provide more coding examples?'', ''What are the best practices for this?'',
             ''How can I practice these concepts?''} else {})
      \<union> (if ''interview'' \<in> topics ctx
         then {''What are common follow-up questions?'',
               ''How should I handle behavioral questions?'', ''Can we do a mock interview?''}
         else {})
      \<union> (if ''career'' \<in> topics ctx
         then {''What skills should I focus on next?'', ''How can I prepare for this role?'',
               ''What are the growth opportunities?''} else {})
      \<union> (\<Union>company\<in>companies_mentioned ctx.
           {''What is '' @ title company @ '''s interview process?'',
            ''What skills does '' @ title company @ '' value?'',
            ''How can I prepare for '' @ title company @ ''?''})
      \<union> (\<Union>skill\<in>skills_mentioned ctx.
           {''How can I master '' @ skill @ ''?'',
            ''What projects can I build with '' @ skill @ ''?'',
            ''Which companies value '' @ skill @ ''?''})"
    (is "_ \<subseteq> ?T \<union> ?I \<union> ?C \<union> ?Co \<union> ?Sk")
proof -
  have co: "companies_mentioned ctx \<noteq> {} \<Longrightarrow>
      hd (iter sv (companies_mentioned ctx)) \<in> companies_mentioned ctx"
    using it fc by (intro hd_iter_mem) simp_all
  have sk: "skills_mentioned ctx \<noteq> {} \<Longrightarrow>
      hd (iter sv (skills_mentioned ctx)) \<in> skills_mentioned ctx"
    using it fs by (intro hd_iter_mem) simp_all
  show ?thesis
  proof
    fix x assume "x \<in> set (suggestion_candidates sv ctx)"
    then consider "x \<in> ?T" | "x \<in> ?I" | "x \<in> ?C"
      | "companies_mentioned ctx \<noteq> {}"
        "x \<in> {''What is '' @ title (hd (iter sv (companies_mentioned ctx))) @ '''s interview process?'',
            ''What skills does '' @ title (hd (iter sv (companies_mentioned ctx))) @ '' value?'',
            ''How can I prepare for '' @ title (hd (iter sv (companies_mentioned ctx))) @ ''?''}"
      | "skills_mentioned ctx \<noteq> {}"
        "x \<in> {''How can I master '' @ hd (iter sv (skills_mentioned ctx)) @ ''?'',
            ''What projects can I build with '' @ hd (iter sv (skills_mentioned ctx)) @ ''?'',
            ''Which companies value '' @ hd (iter sv (skills_mentioned ctx)) @ ''?''}"
      unfolding suggestion_candidates_def Let_def set_append Un_iff
      by (elim disjE) (simp_all split: if_splits)
    then show "x \<in> ?T \<union> ?I \<union> ?C \<union> ?Co \<union> ?Sk"
    proof cases
      case 1 then show ?thesis by blast
    next
      case 2 then show ?thesis by blast
    next
      case 3 then show ?thesis by blast
    next
      case 4
      with co have "x \<in> ?Co" by blast
      then show ?thesis by blast
    next
      case 5
      with sk have "x \<in> ?Sk" by blast
      then show ?thesis by blast
    qed
  qed
qed

lemma cc_suggestion_candidates_pool:
  "set (cc_suggestion_candidates prefs response) =
      (if py_in ''system design'' (lower response)
       then {''Can you explain the CAP theorem?'',
             ''What are some best practices for scaling systems?'',
             ''How does load balancing work in distributed systems?''} else {})
      \<union> (if py_in ''machine learning'' (lower response)
         then {''What is overfitting and how can it be prevented?'',
               ''Can you explain the bias-variance tradeoff?'',
               ''What are common evaluation metrics for classification models?''} else {})
      \<union> (case map_of prefs ''skills'' of
           None \<Rightarrow> {}
         | Some preferred_skills \<Rightarrow>
             (\<lambda>skill. ''How can I improve my '' @ skill @ '' skills?'')
               ` set (pref_items preferred_skills))
      \<union> {''Can you start a mock technical interview with me?'', ''Can you analyze my resume?'',
          ''Can you help me with job matching?''}"
proof -
  have prefs: "set (case map_of prefs ''skills'' of
          None \<Rightarrow> []
        | Some preferred_skills \<Rightarrow>
            if truthy preferred_skills
            then map (\<lambda>skill. ''How can I improve my '' @ skill @ '' skills?'')
                   (pref_items preferred_skills)
            else []) =
      (case map_of prefs ''skills'' of
           None \<Rightarrow> {}
         | Some preferred_skills \<Rightarrow>
             (\<lambda>skill. ''How can I improve my '' @ skill @ '' skills?'')
               ` set (pref_items preferred_skills))"
  proof (cases "map_of prefs ''skills''")
    case None
    then show ?thesis by simp
  next
    case (Some p)
    then show ?thesis by (cases p) auto
  qed
  show ?thesis
    unfolding cc_suggestion_candidates_def set_append prefs
    by (simp only: if_distrib [of set] list.set Un_assoc)
qed
lemma generate_suggestions_bounded:
  assumes it: "\<forall>S. finite S \<longrightarrow> set (iter sv S) = S \<and> distinct (iter sv S)"
    and fc: "finite (companies_mentioned (conversation_context (memory s)))"
    and fs: "finite (skills_mentioned (conversation_context (memory s)))"
  shows "length (generate_suggestions sv s query response) \<le> 3"
    and "distinct (generate_suggestions sv s query response)"
    and "set (generate_suggestions sv s query response) \<subseteq>
      (if ''technical'' \<in> topics (conversation_context (memory s))
       then {''Can you provide more coding examples?'', ''What are the best practices for this?'',
             ''How can I practice these concepts?''} else {})
      \<union> (if ''interview'' \<in> topics (conversation_context (memory s))
         then {''What are common follow-up questions?'',
               ''How should I handle behavioral questions?'', ''Can we do a mock interview?''}
         else {})
      \<union> (if ''career'' \<in> topics (conversation_context (memory s))
         then {''What skills should I focus on next?'', ''How can I prepare for this role?'',
               ''What are the growth opportunities?''} else {})
      \<union> (\<Union>company\<in>companies_mentioned (conversation_context (memory s)).
           {''What is '' @ title company @ '''s interview process?'',
            ''What skills does '' @ title company @ '' value?'',
            ''How can I prepare for '' @ title company @ ''?''})
      \<union> (\<Union>skill\<in>skills_mentioned (conversation_context (memory s)).
           {''How can I master '' @ skill @ ''?'',
            ''What projects can I build with '' @ skill @ ''?'',
            ''Which companies value '' @ skill @ ''?''})"
proof -
  let ?cand = "suggestion_candidates sv (conversation_context (memory s))"
  let ?unique = "iter sv (set ?cand)"
  have u: "set ?unique = set ?cand" "distinct ?unique"
    using it by simp_all
  have res: "generate_suggestions sv s query response =
      (if ?cand \<noteq> [] then take 3 (random_order (rnd sv) ?unique) else [])"
    by (simp add: generate_suggestions_def Let_def)
  show "length (generate_suggestions sv s query response) \<le> 3"
    by (simp add: res)
  show "distinct (generate_suggestions sv s query response)"
    using random_order_distinct [OF u(2), of "rnd sv"] by (simp add: res)
  have "set (generate_suggestions sv s query response) \<subseteq> set (random_order (rnd sv) ?unique)"
    using set_take_subset [of 3 "random_order (rnd sv) ?unique"] by (auto simp: res)
  then have sub: "set (generate_suggestions sv s query response) \<subseteq> set ?cand"
    by (simp only: random_order_set u(1))
  show "set (generate_suggestions sv s query response) \<subseteq>
      (if ''technical'' \<in> topics (conversation_context (memory s))
       then {''Can you provide more coding examples?'', ''What are the best practices for this?'',
             ''How can I practice these concepts?''} else {})
      \<union> (if ''interview'' \<in> topics (conversation_context (memory s))
         then {''What are common follow-up questions?'',
               ''How should I handle behavioral questions?'', ''Can we do a mock interview?''}
         else {})
      \<union> (if ''career'' \<in> topics (conversation_context (memory s))
         then {''What skills should I focus on next?'', ''How can I prepare for this role?'',
               ''What are the growth opportunities?''} else {})
      \<union> (\<Union>company\<in>companies_mentioned (conversation_context (memory s)).
           {''What is '' @ title company @ '''s interview process?'',
            ''What skills does '' @ title company @ '' value?'',
            ''How can I prepare for '' @ title company @ ''?''})
      \<union> (\<Union>skill\<in>skills_mentioned (conversation_context (memory s)).
           {''How can I master '' @ skill @ ''?'',
            ''What projects can I build with '' @ skill @ ''?'',
            ''Which companies value '' @ skill @ ''?''})"
    by (rule subset_trans [OF sub suggestion_candidates_pool [OF it fc fs] ])
qed

lemma cc_generate_suggestions_bounded:
  assumes it: "\<forall>S. finite S \<longrightarrow> set (iter sv S) = S \<and> distinct (iter sv S)"
    and sa: "\<forall>n k. k \<le> n \<longrightarrow> length (sample sv n k) = k \<and> distinct (sample sv n k)
                \<and> (\<forall>i\<in>set (sample sv n k). i < n)"
  shows "length (cc_generate_suggestions sv cs cquery cresponse) \<le> 3"
    and "distinct (cc_generate_suggestions sv cs cquery cresponse)"
    and "set (cc_generate_suggestions sv cs cquery cresponse) \<subseteq>
      (if py_in ''system design'' (lower cresponse)
       then {''Can you explain the CAP theorem?'',
             ''What are some best practices for scaling systems?'',
             ''How does load balancing work in distributed systems?''} else {})
      \<union> (if py_in ''machine learning'' (lower cresponse)
         then {''What is overfitting and how can it be prevented?'',
               ''Can you explain the bias-variance tradeoff?'',
               ''What are common evaluation metrics for classification models?''} else {})
      \<union> (case map_of (cc_user_preferences cs) ''skills'' of
           None \<Rightarrow> {}
         | Some preferred_skills \<Rightarrow>
             (\<lambda>skill. ''How can I improve my '' @ skill @ '' skills?'')
               ` set (pref_items preferred_skills))
      \<union> {''Can you start a mock technical interview with me?'', ''Can you analyze my resume?'',
          ''Can you help me with job matching?''}"
proof -
  let ?ccand = "cc_suggestion_candidates (cc_user_preferences cs) cresponse"
  let ?cunique = "iter sv (set ?ccand)"
  let ?idx = "sample sv (length ?cunique) (min (length ?cunique) 3)"
  have cu: "set ?cunique = set ?ccand" "distinct ?cunique"
    using it by simp_all
  have idx: "length ?idx = min (length ?cunique) 3" "distinct ?idx"
    "\<forall>i\<in>set ?idx. i < length ?cunique"
    using sa [rule_format, of "min (length ?cunique) 3" "length ?cunique"] by simp_all
  have cres: "cc_generate_suggestions sv cs cquery cresponse =
      (if ?ccand \<noteq> [] then map (\<lambda>i. ?cunique ! i) ?idx else [])"
    by (simp add: cc_generate_suggestions_def Let_def)
  show "length (cc_generate_suggestions sv cs cquery cresponse) \<le> 3"
    by (simp add: cres idx(1))
  show "distinct (cc_generate_suggestions sv cs cquery cresponse)"
    using sample_distinct [OF cu(2) idx(2,3)] by (simp add: cres)
  have "set (map (\<lambda>i. ?cunique ! i) ?idx) \<subseteq> set ?cunique"
    using idx(3) by auto
  then have "set (cc_generate_suggestions sv cs cquery cresponse) \<subseteq> set ?ccand"
    unfolding cres cu(1) by (auto split: if_splits)
  then show "set (cc_generate_suggestions sv cs cquery cresponse) \<subseteq>
      (if py_in ''system design'' (lower cresponse)
       then {''Can you explain the CAP theorem?'',
             ''What are some best practices for scaling systems?'',
             ''How does load balancing work in distributed systems?''} else {})
      \<union> (if py_in ''machine learning'' (lower cresponse)
         then {''What is overfitting and how can it be prevented?'',
               ''Can you explain the bias-variance tradeoff?'',
               ''What are common evaluation metrics for classification models?''} else {})
      \<union> (case map_of (cc_user_preferences cs) ''skills'' of
           None \<Rightarrow> {}
         | Some preferred_skills \<Rightarrow>
             (\<lambda>skill. ''How can I improve my '' @ skill @ '' skills?'')
               ` set (pref_items preferred_skills))
      \<union> {''Can you start a mock technical interview with me?'', ''Can you analyze my resume?'',
          ''Can you help me with job matching?''}"
    by (simp only: cc_suggestion_candidates_pool)
qed

lemma canned_pool_context:
  "canned_pool (topics (conversation_context (memory s)))
      (companies_mentioned (conversation_context (memory s)))
      (skills_mentioned (conversation_context (memory s))) =
      (if ''technical'' \<in> topics (conversation_context (memory s))
       then {''Can you provide more coding examples?'', ''What are the best practices for this?'',
             ''How can I practice these concepts?''} else {})
      \<union> (if ''interview'' \<in> topics (conversation_context (memory s))
         then {''What are common follow-up questions?'',
               ''How should I handle behavioral questions?'', ''Can we do a mock interview?''}
         else {})
      \<union> (if ''career'' \<in> topics (conversation_context (memory s))
         then {''What skills should I focus on next?'', ''How can I prepare for this role?'',
               ''What are the growth opportunities?''} else {})
      \<union> (\<Union>company\<in>companies_mentioned (conversation_context (memory s)).
           {''What is '' @ title company @ '''s interview process?'',
            ''What skills does '' @ title company @ '' value?'',
            ''How can I prepare for '' @ title company @ ''?''})
      \<union> (\<Union>skill\<in>skills_mentioned (conversation_context (memory s)).
           {''How can I master '' @ skill @ ''?'',
            ''What projects can I build with '' @ skill @ ''?'',
            ''Which companies value '' @ skill @ ''?''})"
  by (simp only: canned_pool_def)

text \<open>
  Claim C6 as stated fails for the College-Counseling-App chatbot. With no preferences set
  and the response \<open>hello\<close>, in which neither phrase of its rule table occurs, its
  \<^verbatim>\<open>_generate_suggestions\<close> returns the three questions it always offers, and none of
  them is in the canned pool of topics, companies and skills, even taken over all the
  topics and the whole company and skill lists.
\<close>

theorem cc_generate_suggestions_outside_pool:
  "cc_user_preferences (cc_PlacementChatbot_init ''sys'' :: nat cc_PlacementChatbot) = []
   \<and> \<not> py_in ''system design'' (lower ''hello'')
   \<and> \<not> py_in ''machine learning'' (lower ''hello'')
   \<and> cc_generate_suggestions
      \<lparr>chat = (\<lambda>r. Inl (ServiceError ''down'')), generate = (\<lambda>r. Inr (Some ''ok'')),
       encode = length, rank = (\<lambda>q es k. [0..<k]), clock = (\<lambda>k. ''t''),
       iter = sorted_list_of_set, rnd = (\<lambda>k. 0), sample = (\<lambda>n k. [0..<k]), repr_list = concat\<rparr>
      (cc_PlacementChatbot_init ''sys'' :: nat cc_PlacementChatbot) ''hi'' ''hello''
     = [''Can you analyze my resume?'', ''Can you help me with job matching?'',
        ''Can you start a mock technical interview with me?'']
   \<and> ''Can you analyze my resume?''
       \<notin> canned_pool (fst ` set topic_table) (set companies_list) (set skills_list)
   \<and> ''Can you help me with job matching?''
       \<notin> canned_pool (fst ` set topic_table) (set companies_list) (set skills_list)
   \<and> ''Can you start a mock technical interview with me?''
       \<notin> canned_pool (fst ` set topic_table) (set companies_list) (set skills_list)"
proof -
  have p: "cc_user_preferences (cc_PlacementChatbot_init ''sys'' :: nat cc_PlacementChatbot) = []"
    by (simp add: cc_PlacementChatbot_init_def)
  have d1: "\<not> py_in ''system design'' (lower ''hello'')" by code_simp
  have d2: "\<not> py_in ''machine learning'' (lower ''hello'')" by code_simp
  have r: "cc_generate_suggestions
      \<lparr>chat = (\<lambda>r. Inl (ServiceError ''down'')), generate = (\<lambda>r. Inr (Some ''ok'')),
       encode = length, rank = (\<lambda>q es k. [0..<k]), clock = (\<lambda>k. ''t''),
       iter = sorted_list_of_set, rnd = (\<lambda>k. 0), sample = (\<lambda>n k. [0..<k]), repr_list = concat\<rparr>
      (cc_PlacementChatbot_init ''sys'' :: nat cc_PlacementChatbot) ''hi'' ''hello''
     = [''Can you analyze my resume?'', ''Can you help me with job matching?'',
        ''Can you start a mock technical interview with me?'']"
    by code_simp
  have a: "''Can you analyze my resume?''
       \<notin> canned_pool (fst ` set topic_table) (set companies_list) (set skills_list)"
    by (simp add: canned_pool_def)
  have b: "''Can you help me with job matching?''
       \<notin> canned_pool (fst ` set topic_table) (set companies_list) (set skills_list)"
    by (simp add: canned_pool_def)
  have c: "''Can you start a mock technical interview with me?''
       \<notin> canned_pool (fst ` set topic_table) (set companies_list) (set skills_list)"
    by (simp add: canned_pool_def)
  show ?thesis
    by (intro conjI) (fact p d1 d2 r a b c)+
qed

text \<open>
  Claim C6, amended. Whatever the set order and the random draws,
  \<^verbatim>\<open>_generate_suggestions\<close> returns at most three strings, all different. In the StudBud
  chatbot each is drawn from the fixed canned pool of the topics, companies and skills in
  the conversation context: the three questions of each of the topics technical,
  interview and career, and the three templates filled with a company or a skill; the
  context holds names of the fixed company and skill lists only, in every memory built by
  \<^verbatim>\<open>add_message\<close>. In the College-Counseling-App chatbot, which keeps no such context,
  each is a canned question for a phrase found in the response, the template filled with
  a skill of the user's preferences, or one of the three questions that are always
  offered.
\<close>

theorem generate_suggestions_at_most_three_from_pool:
  fixes sv :: "('e, 'x) env_scheme" and s :: PlacementChatbot
    and csv :: "('c, 'y) env_scheme" and cs :: "'c cc_PlacementChatbot"
  shows "((\<forall>S. finite S \<longrightarrow> set (iter sv S) = S \<and> distinct (iter sv S))
        \<and> finite (companies_mentioned (conversation_context (memory s)))
        \<and> finite (skills_mentioned (conversation_context (memory s)))
      \<longrightarrow> length (generate_suggestions sv s query response) \<le> 3
        \<and> distinct (generate_suggestions sv s query response)
        \<and> set (generate_suggestions sv s query response) \<subseteq>
      (if ''technical'' \<in> topics (conversation_context (memory s))
       then {''Can you provide more coding examples?'', ''What are the best practices for this?'',
             ''How can I practice these concepts?''} else {})
      \<union> (if ''interview'' \<in> topics (conversation_context (memory s))
         then {''What are common follow-up questions?'',
               ''How should I handle behavioral questions?'', ''Can we do a mock interview?''}
         else {})
      \<union> (if ''career'' \<in> topics (conversation_context (memory s))
         then {''What skills should I focus on next?'', ''How can I prepare for this role?'',
               ''What are the growth opportunities?''} else {})
      \<union> (\<Union>company\<in>companies_mentioned (conversation_context (memory s)).
           {''What is '' @ title company @ '''s interview process?'',
            ''What skills does '' @ title company @ '' value?'',
            ''How can I prepare for '' @ title company @ ''?''})
      \<union> (\<Union>skill\<in>skills_mentioned (conversation_context (memory s)).
           {''How can I master '' @ skill @ ''?'',
            ''What projects can I build with '' @ skill @ ''?'',
            ''Which companies value '' @ skill @ ''?''})
        \<and> set (generate_suggestions sv s query response) \<subseteq>
            canned_pool (topics (conversation_context (memory s)))
              (companies_mentioned (conversation_context (memory s)))
              (skills_mentioned (conversation_context (memory s))))
    \<and> (\<forall>cap ms.
          companies_mentioned (conversation_context
              (foldl add_message (ConversationMemory_init cap) ms)) \<subseteq> set companies_list
          \<and> skills_mentioned (conversation_context
              (foldl add_message (ConversationMemory_init cap) ms)) \<subseteq> set skills_list
          \<and> topics (conversation_context
              (foldl add_message (ConversationMemory_init cap) ms)) \<subseteq> fst ` set topic_table)
    \<and> ((\<forall>S. finite S \<longrightarrow> set (iter csv S) = S \<and> distinct (iter csv S))
        \<and> (\<forall>n k. k \<le> n \<longrightarrow> length (sample csv n k) = k \<and> distinct (sample csv n k)
                \<and> (\<forall>i\<in>set (sample csv n k). i < n))
      \<longrightarrow> length (cc_generate_suggestions csv cs cquery cresponse) \<le> 3
        \<and> distinct (cc_generate_suggestions csv cs cquery cresponse)
        \<and> set (cc_generate_suggestions csv cs cquery cresponse) \<subseteq>
      (if py_in ''system design'' (lower cresponse)
       then {''Can you explain the CAP theorem?'',
             ''What are some best practices for scaling systems?'',
             ''How does load balancing work in distributed systems?''} else {})
      \<union> (if py_in ''machine learning'' (lower cresponse)
         then {''What is overfitting and how can it be prevented?'',
               ''Can you explain the bias-variance tradeoff?'',
               ''What are common evaluation metrics for classification models?''} else {})
      \<union> (case map_of (cc_user_preferences cs) ''skills'' of
           None \<Rightarrow> {}
         | Some preferred_skills \<Rightarrow>
             (\<lambda>skill. ''How can I improve my '' @ skill @ '' skills?'')
               ` set (pref_items preferred_skills))
      \<union> {''Can you start a mock technical interview with me?'', ''Can you analyze my resume?'',
          ''Can you help me with job matching?''})"
proof (intro conjI impI allI)
  assume h: "(\<forall>S. finite S \<longrightarrow> set (iter sv S) = S \<and> distinct (iter sv S))
        \<and> finite (companies_mentioned (conversation_context (memory s)))
        \<and> finite (skills_mentioned (conversation_context (memory s)))"
  then have it: "\<forall>S. finite S \<longrightarrow> set (iter sv S) = S \<and> distinct (iter sv S)"
    and fc: "finite (companies_mentioned (conversation_context (memory s)))"
    and fs: "finite (skills_mentioned (conversation_context (memory s)))"
    by blast+
  show "length (generate_suggestions sv s query response) \<le> 3"
    by (rule generate_suggestions_bounded(1) [OF it fc fs])
  show "distinct (generate_suggestions sv s query response)"
    by (rule generate_suggestions_bounded(2) [OF it fc fs])
  show "set (generate_suggestions sv s query response) \<subseteq>
      (if ''technical'' \<in> topics (conversation_context (memory s))
       then {''Can you provide more coding examples?'', ''What are the best practices for this?'',
             ''How can I practice these concepts?''} else {})
      \<union> (if ''interview'' \<in> topics (conversation_context (memory s))
         then {''What are common follow-up questions?'',
               ''How should I handle behavioral questions?'', ''Can we do a mock interview?''}
         else {})
      \<union> (if ''career'' \<in> topics (conversation_context (memory s))
         then {''What skills should I focus on next?'', ''How can I prepare for this role?'',
               ''What are the growth opportunities?''} else {})
      \<union> (\<Union>company\<in>companies_mentioned (conversation_context (memory s)).
           {''What is '' @ title company @ '''s interview process?'',
            ''What skills does '' @ title company @ '' value?'',
            ''How can I prepare for '' @ title company @ ''?''})
      \<union> (\<Union>skill\<in>skills_mentioned (conversation_context (memory s)).
           {''How can I master '' @ skill @ ''?'',
            ''What projects can I build with '' @ skill @ ''?'',
            ''Which companies value '' @ skill @ ''?''})"
    by (rule generate_suggestions_bounded(3) [OF it fc fs])
  then show "set (generate_suggestions sv s query response) \<subseteq>
            canned_pool (topics (conversation_context (memory s)))
              (companies_mentioned (conversation_context (memory s)))
              (skills_mentioned (conversation_context (memory s)))"
    by (simp only: canned_pool_context)
next
  fix cap ms
  have r: "companies_mentioned (conversation_context
              (foldl add_message (ConversationMemory_init cap) ms)) \<subseteq> set companies_list
          \<and> skills_mentioned (conversation_context
              (foldl add_message (ConversationMemory_init cap) ms)) \<subseteq> set skills_list
          \<and> topics (conversation_context
              (foldl add_message (ConversationMemory_init cap) ms)) \<subseteq> fst ` set topic_table"
    by (rule reachable_context_within) (simp_all add: ConversationMemory_init_def)
  from r show "companies_mentioned (conversation_context
              (foldl add_message (ConversationMemory_init cap) ms)) \<subseteq> set companies_list"
    by (elim conjE)
  from r show "skills_mentioned (conversation_context
              (foldl add_message (ConversationMemory_init cap) ms)) \<subseteq> set skills_list"
    by (elim conjE)
  from r show "topics (conversation_context
              (foldl add_message (ConversationMemory_init cap) ms)) \<subseteq> fst ` set topic_table"
    by (elim conjE)
next
  assume h: "(\<forall>S. finite S \<longrightarrow> set (iter csv S) = S \<and> distinct (iter csv S))
        \<and> (\<forall>n k. k \<le> n \<longrightarrow> length (sample csv n k) = k \<and> distinct (sample csv n k)
                \<and> (\<forall>i\<in>set (sample csv n k). i < n))"
  then have it: "\<forall>S. finite S \<longrightarrow> set (iter csv S) = S \<and> distinct (iter csv S)"
    and sa: "\<forall>n k. k \<le> n \<longrightarrow> length (sample csv n k) = k \<and> distinct (sample csv n k)
                \<and> (\<forall>i\<in>set (sample csv n k). i < n)"
    by blast+
  show "length (cc_generate_suggestions csv cs cquery cresponse) \<le> 3"
    by (rule cc_generate_suggestions_bounded(1) [OF it sa])
  show "distinct (cc_generate_suggestions csv cs cquery cresponse)"
    by (rule cc_generate_suggestions_bounded(2) [OF it sa])
  show "set (cc_generate_suggestions csv cs cquery cresponse) \<subseteq>
      (if py_in ''system design'' (lower cresponse)
       then {''Can you explain the CAP theorem?'',
             ''What are some best practices for scaling systems?'',
             ''How does load balancing work in distributed systems?''} else {})
      \<union> (if py_in ''machine learning'' (lower cresponse)
         then {''What is overfitting and how can it be prevented?'',
               ''Can you explain the bias-variance tradeoff?'',
               ''What are common evaluation metrics for classification models?''} else {})
      \<union> (case map_of (cc_user_preferences cs) ''skills'' of
           None \<Rightarrow> {}
         | Some preferred_skills \<Rightarrow>
             (\<lambda>skill. ''How can I improve my '' @ skill @ '' skills?'')
               ` set (pref_items preferred_skills))
      \<union> {''Can you start a mock technical interview with me?'', ''Can you analyze my resume?'',
          ''Can you help me with job matching?''}"
    by (rule cc_generate_suggestions_bounded(3) [OF it sa])
qed

theorem generate_suggestions_at_most_three_from_pool_witness:
  "length (generate_suggestions
      \<lparr>chat = (\<lambda>r. Inl (ServiceError ''down'')), generate = (\<lambda>r. Inr (Some ''ok'')),
       encode = length, rank = (\<lambda>q es k. [0..<k]), clock = (\<lambda>k. ''t''),
       iter = sorted_list_of_set, rnd = (\<lambda>k. 0), sample = (\<lambda>n k. [0..<k]), repr_list = concat\<rparr>
      \<lparr>text_model = ''gemma2:27b'',
       memory = add_message (ConversationMemory_init 50)
                  (mk_message ''I enjoy Coding in Python at Google'' TEXT),
       system_prompt = ''sys''\<rparr> ''q'' ''r'') \<le> 3
   \<and> generate_suggestions
      \<lparr>chat = (\<lambda>r. Inl (ServiceError ''down'')), generate = (\<lambda>r. Inr (Some ''ok'')),
       encode = length, rank = (\<lambda>q es k. [0..<k]), clock = (\<lambda>k. ''t''),
       iter = sorted_list_of_set, rnd = (\<lambda>k. 0), sample = (\<lambda>n k. [0..<k]), repr_list = concat\<rparr>
      \<lparr>text_model = ''gemma2:27b'',
       memory = add_message (ConversationMemory_init 50)
                  (mk_message ''I enjoy Coding in Python at Google'' TEXT),
       system_prompt = ''sys''\<rparr> ''q'' ''r''
     = [''Can you provide more coding examples?'', ''How can I master python?'',
        ''How can I practice these concepts?'']
   \<and> length (cc_generate_suggestions
      \<lparr>chat = (\<lambda>r. Inl (ServiceError ''down'')), generate = (\<lambda>r. Inr (Some ''ok'')),
       encode = length, rank = (\<lambda>q es k. [0..<k]), clock = (\<lambda>k. ''t''),
       iter = sorted_list_of_set, rnd = (\<lambda>k. 0), sample = (\<lambda>n k. [0..<k]), repr_list = concat\<rparr>
      ((cc_PlacementChatbot_init ''sys'' :: nat cc_PlacementChatbot)
         \<lparr>cc_user_preferences := [(''industry'', PText ''IT''), (''skills'', PList [''Python''])]\<rparr>)
      ''q'' ''Machine Learning is fun'') \<le> 3
   \<and> cc_generate_suggestions
      \<lparr>chat = (\<lambda>r. Inl (ServiceError ''down'')), generate = (\<lambda>r. Inr (Some ''ok'')),
       encode = length, rank = (\<lambda>q es k. [0..<k]), clock = (\<lambda>k. ''t''),
       iter = sorted_list_of_set, rnd = (\<lambda>k. 0), sample = (\<lambda>n k. [0..<k]), repr_list = concat\<rparr>
      ((cc_PlacementChatbot_init ''sys'' :: nat cc_PlacementChatbot)
         \<lparr>cc_user_preferences := [(''industry'', PText ''IT''), (''skills'', PList [''Python''])]\<rparr>)
      ''q'' ''Machine Learning is fun''
     = [''Can you analyze my resume?'', ''Can you explain the bias-variance tradeoff?'',
        ''Can you help me with job matching?'']"
proof -
  let ?sv = "\<lparr>chat = (\<lambda>r. Inl (ServiceError ''down'')), generate = (\<lambda>r. Inr (Some ''ok'')),
       encode = length, rank = (\<lambda>q es k. [0..<k]), clock = (\<lambda>k. ''t''),
       iter = sorted_list_of_set, rnd = (\<lambda>k. 0), sample = (\<lambda>n k. [0..<k]), repr_list = concat\<rparr>
       :: nat env"
  let ?s = "\<lparr>text_model = ''gemma2:27b'',
       memory = add_message (ConversationMemory_init 50)
                  (mk_message ''I enjoy Coding in Python at Google'' TEXT),
       system_prompt = ''sys''\<rparr>"
  let ?cs = "(cc_PlacementChatbot_init ''sys'' :: nat cc_PlacementChatbot)
         \<lparr>cc_user_preferences := [(''industry'', PText ''IT''), (''skills'', PList [''Python''])]\<rparr>"
  have it: "\<forall>S. finite S \<longrightarrow> set (iter ?sv S) = S \<and> distinct (iter ?sv S)"
    by simp
  have sa: "\<forall>n k. k \<le> n \<longrightarrow> length (sample ?sv n k) = k \<and> distinct (sample ?sv n k)
                \<and> (\<forall>i\<in>set (sample ?sv n k). i < n)"
    by auto
  have "companies_mentioned (conversation_context (memory ?s)) = {''google''}"
    by code_simp
  then have fc: "finite (companies_mentioned (conversation_context (memory ?s)))"
    by (simp only: finite.intros)
  have "skills_mentioned (conversation_context (memory ?s)) = {''python''}"
    by code_simp
  then have fs: "finite (skills_mentioned (conversation_context (memory ?s)))"
    by (simp only: finite.intros)
  note all = generate_suggestions_at_most_three_from_pool [where sv = ?sv and s = ?s
      and csv = ?sv and cs = ?cs and query = "''q''" and response = "''r''"
      and cquery = "''q''" and cresponse = "''Machine Learning is fun''"]
  from all it fc fs have n1: "length (generate_suggestions ?sv ?s ''q'' ''r'') \<le> 3"
    by blast
  from all it sa
  have n2: "length (cc_generate_suggestions ?sv ?cs ''q'' ''Machine Learning is fun'') \<le> 3"
    by blast
  have e1: "generate_suggestions ?sv ?s ''q'' ''r''
     = [''Can you provide more coding examples?'', ''How can I master python?'',
        ''How can I practice these concepts?'']"
    by code_simp
  have e2: "cc_generate_suggestions ?sv ?cs ''q'' ''Machine Learning is fun''
     = [''Can you analyze my resume?'', ''Can you explain the bias-variance tradeoff?'',
        ''Can you help me with job matching?'']"
    by code_simp
  show ?thesis
    by (intro conjI) (fact n1 e1 n2 e2)+
qed

end
